theory Spec2Isabelle
  imports Complex_Main
begin

section \<open>JavaScript numbers\<close>

text \<open>
  The program computes with JavaScript numbers. A number is modelled as \<open>NaN\<close>, one of
  the two infinities, or a finite value carried as an exact real: the control flow of the
  program depends on how \<open>NaN\<close> and the infinities compare and propagate
  (\<open>parseInt\<close> yields \<open>NaN\<close> on a missing quantity, a division by a zero quantity
  yields an infinity), so they are kept. The rounding error of the binary representation of
  finite values, the overflow of a finite result beyond the largest double to an infinity,
  and the sign of zero are not modelled: finite arithmetic is exact and unbounded, and a zero
  divisor counts as \<open>+0\<close>. Where a property measures a computed value against a
  value of its own, as the bounds on the average cost of a holding do, it states the
  magnitudes within which it is meant and leaves the margin that the binary rounding needs.
\<close>

datatype jsnum = NaN | NInf | Fin real | PInf

fun js_neg :: "jsnum \<Rightarrow> jsnum" where
  "js_neg NaN = NaN"
| "js_neg NInf = PInf"
| "js_neg PInf = NInf"
| "js_neg (Fin a) = Fin (- a)"

fun js_add :: "jsnum \<Rightarrow> jsnum \<Rightarrow> jsnum" where
  "js_add (Fin a) (Fin b) = Fin (a + b)"
| "js_add NaN _ = NaN"
| "js_add _ NaN = NaN"
| "js_add PInf NInf = NaN"
| "js_add NInf PInf = NaN"
| "js_add PInf _ = PInf"
| "js_add _ PInf = PInf"
| "js_add NInf _ = NInf"
| "js_add _ NInf = NInf"

definition js_sub :: "jsnum \<Rightarrow> jsnum \<Rightarrow> jsnum" where
  "js_sub a b = js_add a (js_neg b)"

text \<open>An infinity times or over a finite value: its sign follows the sign of \<open>s\<close>;
  \<open>0 * Infinity\<close> and \<open>0 / 0\<close> are \<open>NaN\<close>.\<close>

definition inf_of_sign :: "real \<Rightarrow> jsnum" where
  "inf_of_sign s = (if s = 0 then NaN else if 0 < s then PInf else NInf)"

fun js_mul :: "jsnum \<Rightarrow> jsnum \<Rightarrow> jsnum" where
  "js_mul (Fin a) (Fin b) = Fin (a * b)"
| "js_mul NaN _ = NaN"
| "js_mul _ NaN = NaN"
| "js_mul PInf PInf = PInf"
| "js_mul NInf NInf = PInf"
| "js_mul PInf NInf = NInf"
| "js_mul NInf PInf = NInf"
| "js_mul PInf (Fin b) = inf_of_sign b"
| "js_mul NInf (Fin b) = inf_of_sign (- b)"
| "js_mul (Fin a) PInf = inf_of_sign a"
| "js_mul (Fin a) NInf = inf_of_sign (- a)"

fun js_div :: "jsnum \<Rightarrow> jsnum \<Rightarrow> jsnum" where
  "js_div (Fin a) (Fin b) = (if b = 0 then inf_of_sign a else Fin (a / b))"
| "js_div NaN _ = NaN"
| "js_div _ NaN = NaN"
| "js_div (Fin a) _ = Fin 0"
| "js_div PInf (Fin b) = (if 0 \<le> b then PInf else NInf)"
| "js_div NInf (Fin b) = (if 0 \<le> b then NInf else PInf)"
| "js_div _ _ = NaN"

text \<open>The comparison \<open>a < b\<close>: false as soon as one side is \<open>NaN\<close>.\<close>

fun js_lt :: "jsnum \<Rightarrow> jsnum \<Rightarrow> bool" where
  "js_lt (Fin a) (Fin b) = (a < b)"
| "js_lt NaN _ = False"
| "js_lt _ NaN = False"
| "js_lt _ NInf = False"
| "js_lt NInf _ = True"
| "js_lt PInf _ = False"
| "js_lt _ PInf = True"

text \<open>Strict equality \<open>a === b\<close> on numbers: \<open>NaN\<close> equals nothing.\<close>

definition js_seq :: "jsnum \<Rightarrow> jsnum \<Rightarrow> bool" where
  "js_seq a b = (a \<noteq> NaN \<and> a = b)"

text \<open>
  \<open>parseFloat(x.toFixed(2))\<close>. \<open>toFixed\<close> works on the absolute value, takes the
  integer \<open>n\<close> with \<open>n / 100\<close> nearest to it (the larger one on a tie) and restores the
  sign; from \<open>10^21\<close> on it prints the number itself.
\<close>

definition toFixed2 :: "real \<Rightarrow> real" where
  "toFixed2 x =
     (if 10 ^ 21 \<le> \<bar>x\<bar> then x else sgn x * of_int \<lfloor>\<bar>x\<bar> * 100 + 1 / 2\<rfloor> / 100)"

fun js_toFixed2 :: "jsnum \<Rightarrow> jsnum" where
  "js_toFixed2 (Fin a) = Fin (toFixed2 a)"
| "js_toFixed2 x = x"

section \<open>Data model\<close>

record holding =
  h_symbol :: string
  h_qty :: jsnum
  h_price :: jsnum

text \<open>An order. Its \<open>id\<close> is the base-36 rendering of one \<open>Math.random()\<close> draw
  (\<open>generateId\<close>); the model keeps the draw. Its \<open>time\<close> is the clock reading.\<close>

record order =
  o_id :: real
  o_symbol :: string
  o_qty :: jsnum
  o_side :: "string option"
  o_price :: jsnum
  o_time :: int

record account =
  balance :: jsnum
  holdings :: "holding list"
  orders :: "order list"

datatype trend = UP | DOWN | FLAT

record stock =
  s_price :: real
  s_trend :: trend

record news_item =
  headline :: string
  sentiment :: string
  n_symbol :: string

text \<open>\<open>marketState.stocks\<close> is an object whose keys are enumerated in insertion order:
  an association list.\<close>

record marketState =
  stocks :: "(string \<times> stock) list"
  lastUpdate :: int
  news :: "news_item list"

text \<open>The module state: the \<open>sessions\<close> map and the shared \<open>marketState\<close>.\<close>

record world =
  sessions :: "string \<rightharpoonup> account"
  market :: marketState

text \<open>What one call reads from its environment: \<open>Date.now()\<close> in milliseconds, the
  date strings of the clock and calendar, and the successive results of
  \<open>Math.random()\<close>, each in \<open>[0, 1)\<close>. The string \<open>date_of i\<close> is what
  \<open>date.toISOString().split('T')[0]\<close> prints for \<open>date = new Date()\<close> moved back
  by \<open>date.setDate(date.getDate() - i)\<close>. The move is made in local time and the
  string is the date in UTC, so the strings depend on the time zone of the host: nothing is
  assumed of them, and two values of \<open>i\<close> can print the same date (a move across a
  change of the offset from UTC shifts the time of day by an hour).\<close>

record env =
  now :: int
  date_of :: "nat \<Rightarrow> string"
  random :: "nat \<Rightarrow> real"

definition createAccount :: account where
  "createAccount =
     \<lparr>balance = Fin 100000,
      holdings =
        [\<lparr>h_symbol = ''TCS'', h_qty = Fin 10, h_price = Fin 3400\<rparr>,
         \<lparr>h_symbol = ''RELIANCE'', h_qty = Fin 5, h_price = Fin 2800\<rparr>,
         \<lparr>h_symbol = ''INFY'', h_qty = Fin 15, h_price = Fin 1500\<rparr>],
      orders = []\<rparr>"

text \<open>\<open>getSession\<close>: a missing or empty id becomes \<open>demo-session\<close>; an unknown id gets
  a fresh account, stored in the map.\<close>

definition getSession ::
  "string option \<Rightarrow> (string \<rightharpoonup> account) \<Rightarrow> (string \<times> account) \<times> (string \<rightharpoonup> account)" where
  "getSession sid ss =
     (let id = (case sid of None \<Rightarrow> ''demo-session''
                | Some s \<Rightarrow> if s = [] then ''demo-session'' else s)
      in case ss id of
           None \<Rightarrow> ((id, createAccount), ss(id \<mapsto> createAccount))
         | Some a \<Rightarrow> ((id, a), ss))"

definition initialStocks :: "(string \<times> stock) list" where
  "initialStocks =
     [(''TCS'', \<lparr>s_price = 3450, s_trend = UP\<rparr>),
      (''RELIANCE'', \<lparr>s_price = 2850, s_trend = FLAT\<rparr>),
      (''INFY'', \<lparr>s_price = 1520, s_trend = DOWN\<rparr>),
      (''HDFC'', \<lparr>s_price = 1680, s_trend = UP\<rparr>),
      (''WIPRO'', \<lparr>s_price = 460, s_trend = DOWN\<rparr>),
      (''TATAMOTORS'', \<lparr>s_price = 980, s_trend = UP\<rparr>)]"

definition initialNews :: "news_item list" where
  "initialNews =
     [\<lparr>headline = ''TCS bags $1B deal from UK insurer'', sentiment = ''POSITIVE'',
       n_symbol = ''TCS''\<rparr>,
      \<lparr>headline = ''Reliance expected to post weak quarterly results'',
       sentiment = ''NEGATIVE'', n_symbol = ''RELIANCE''\<rparr>,
      \<lparr>headline = ''Tech sector rally continues as Nasdaq surges'', sentiment = ''POSITIVE'',
       n_symbol = ''INFY''\<rparr>,
      \<lparr>headline = ''Auto sales drop 5% in March'', sentiment = ''NEGATIVE'',
       n_symbol = ''TATAMOTORS''\<rparr>]"

text \<open>The module state at load time \<open>t0\<close>.\<close>

definition initialMarket :: "int \<Rightarrow> marketState" where
  "initialMarket t0 = \<lparr>stocks = initialStocks, lastUpdate = t0, news = initialNews\<rparr>"

definition initialWorld :: "int \<Rightarrow> world" where
  "initialWorld t0 = \<lparr>sessions = Map.empty, market = initialMarket t0\<rparr>"

section \<open>Market movement\<close>

definition move_stock :: "real \<Rightarrow> stock \<Rightarrow> stock" where
  "move_stock r st =
     (let move = (r - 0.5) * 10
      in \<lparr>s_price = toFixed2 (s_price st + move),
          s_trend = (if move > 0 then UP else DOWN)\<rparr>)"

text \<open>The \<open>for ... in\<close> loop of \<open>updateMarket\<close>: the \<open>k\<close>-th instrument takes the
  \<open>k\<close>-th draw.\<close>

fun move_stocks :: "(nat \<Rightarrow> real) \<Rightarrow> nat \<Rightarrow> (string \<times> stock) list \<Rightarrow> (string \<times> stock) list" where
  "move_stocks rnd k [] = []"
| "move_stocks rnd k ((name, st) # rest) =
     (name, move_stock (rnd k) st) # move_stocks rnd (Suc k) rest"

text \<open>\<open>updateMarket\<close> returns the market and the number of draws it consumed.\<close>

definition updateMarket :: "int \<Rightarrow> (nat \<Rightarrow> real) \<Rightarrow> marketState \<Rightarrow> marketState \<times> nat" where
  "updateMarket t rnd m =
     (if t - lastUpdate m > 5000
      then (m\<lparr>stocks := move_stocks rnd 0 (stocks m), lastUpdate := t\<rparr>, length (stocks m))
      else (m, 0))"

section \<open>The tool dispatcher\<close>

text \<open>
  The arguments of a tool call. \<open>p_symbol\<close> is \<open>params.symbol\<close> when it is a string
  (\<open>None\<close> otherwise, where \<open>params.symbol.toUpperCase()\<close> throws); \<open>p_qty\<close> is
  what \<open>parseInt(params.qty)\<close> returns: \<open>NaN\<close>, a whole number, or an infinity for a
  digit string beyond the range of numbers; \<open>p_side\<close> and \<open>p_type\<close> are the strings
  \<open>params.side\<close> and \<open>params.type\<close>; \<open>p_price\<close> and \<open>p_days\<close> are the JSON
  numbers \<open>params.price\<close> and \<open>params.days\<close>. \<open>None\<close> is \<open>undefined\<close>.
\<close>

record params =
  p_symbol :: "string option"
  p_qty :: jsnum
  p_side :: "string option"
  p_type :: "string option"
  p_price :: "real option"
  p_days :: "real option"

text \<open>\<open>{}\<close>: no argument given (\<open>parseInt(undefined)\<close> is \<open>NaN\<close>).\<close>

definition no_params :: params where
  "no_params =
     \<lparr>p_symbol = None, p_qty = NaN, p_side = None, p_type = None, p_price = None,
      p_days = None\<rparr>"

text \<open>A thrown error with its message: \<open>new Error(...)\<close> of the program, or the
  \<open>TypeError\<close> of reading a property of \<open>undefined\<close>.\<close>

datatype error = Error string | TypeError string

definition error_message :: "error \<Rightarrow> string" where
  "error_message err = (case err of Error msg \<Rightarrow> msg | TypeError msg \<Rightarrow> msg)"

definition cannot_read :: "string \<Rightarrow> error" where
  "cannot_read prop = TypeError (''Cannot read properties of undefined (reading '' @ prop @ '')'')"

record holding_val =
  hv_symbol :: string
  hv_qty :: jsnum
  hv_price :: jsnum
  current_price :: jsnum
  pnl :: jsnum

record ohlc =
  d_date :: string
  d_open :: real
  d_high :: real
  d_low :: real
  d_close :: real
  d_volume :: int

text \<open>The object each tool returns. The \<open>message\<close> of a completed order is the template
  \<open>side order for qty symbol executed at price\<close>, kept as its four parts.\<close>

datatype result =
    InitResult string real string
  | AccountResult string jsnum string string
  | HoldingsResult "holding_val list"
  | OrdersResult "order list"
  | HistoryResult string "ohlc list"
  | ErrorResult string
  | Rejected string
  | Complete real jsnum "string option \<times> jsnum \<times> string \<times> jsnum"
  | QuoteResult string real trend "real \<times> int" "real \<times> int"
  | NewsResult "news_item list" string
  | MarketStatusResult string real string string "string list"

text \<open>\<open>toUpperCase\<close> on ASCII strings.\<close>

definition upper_char :: "char \<Rightarrow> char" where
  "upper_char c =
     (let n = (of_char c :: nat) in if 97 \<le> n \<and> n \<le> 122 then char_of (n - 32) else c)"

definition toUpperCase :: "string \<Rightarrow> string" where
  "toUpperCase s = map upper_char s"

text \<open>\<open>a || b\<close> on optional strings: the empty string and \<open>undefined\<close> are falsy.\<close>

definition str_or :: "string option \<Rightarrow> string option \<Rightarrow> string option" where
  "str_or a b = (case a of None \<Rightarrow> b | Some s \<Rightarrow> if s = [] then b else Some s)"

text \<open>\<open>marketState.stocks[symbol]?.price || params.price || 0\<close>.\<close>

definition order_price :: "marketState \<Rightarrow> string \<Rightarrow> real option \<Rightarrow> jsnum" where
  "order_price m symbol pp =
     (let fallback = (case pp of None \<Rightarrow> Fin 0 | Some p \<Rightarrow> if p = 0 then Fin 0 else Fin p)
      in case map_of (stocks m) symbol of
           None \<Rightarrow> fallback
         | Some st \<Rightarrow> if s_price st = 0 then fallback else Fin (s_price st))"

text \<open>\<open>existing\<close> is the first holding of the symbol, mutated in place.\<close>

fun update_first :: "string \<Rightarrow> (holding \<Rightarrow> holding) \<Rightarrow> holding list \<Rightarrow> holding list" where
  "update_first symbol f [] = []"
| "update_first symbol f (h # hs) =
     (if h_symbol h = symbol then f h # hs else h # update_first symbol f hs)"

text \<open>The end of \<open>place-order\<close>: the order is recorded and confirmed.\<close>

definition record_order ::
  "env \<Rightarrow> (nat \<Rightarrow> real) \<Rightarrow> string \<Rightarrow> jsnum \<Rightarrow> string option \<Rightarrow> jsnum \<Rightarrow> account
     \<Rightarrow> (error + result) \<times> account" where
  "record_order e rnd symbol qty side price acct =
     (let orderId = rnd 0
      in (Inr (Complete orderId price (side, qty, symbol, price)),
          acct\<lparr>orders := orders acct @
            [\<lparr>o_id = orderId, o_symbol = symbol, o_qty = qty, o_side = side, o_price = price,
              o_time = now e\<rparr>]\<rparr>))"

text \<open>The case \<open>place-order\<close>: the result and the account as the call leaves it.\<close>

definition place_order ::
  "env \<Rightarrow> (nat \<Rightarrow> real) \<Rightarrow> params \<Rightarrow> account \<Rightarrow> marketState \<Rightarrow> (error + result) \<times> account" where
  "place_order e rnd ps acct m =
     (case p_symbol ps of
        None \<Rightarrow> (Inl (cannot_read ''toUpperCase''), acct)
      | Some s \<Rightarrow>
          let symbol = toUpperCase s;
              qty = p_qty ps;
              side = str_or (p_side ps) (p_type ps);
              price = order_price m symbol (p_price ps)
          in if map_of (stocks m) symbol = None
             then (Inr (Rejected ''Symbol not found''), acct)
             else
               let orderValue = js_mul qty price
               in if side = Some ''BUY'' then
                    if js_lt (balance acct) orderValue
                    then (Inr (Rejected ''Insufficient funds''), acct)
                    else
                      let acct1 = acct\<lparr>balance := js_sub (balance acct) orderValue\<rparr>
                      in case find (\<lambda>h. h_symbol h = symbol) (holdings acct1) of
                           Some existing \<Rightarrow>
                             let totalCost =
                                   js_add (js_mul (h_qty existing) (h_price existing)) orderValue;
                                 newQty = js_add (h_qty existing) qty
                             in record_order e rnd symbol qty side price
                                  (acct1\<lparr>holdings := update_first symbol
                                     (\<lambda>h. h\<lparr>h_qty := newQty,
                                            h_price := js_toFixed2 (js_div totalCost newQty)\<rparr>)
                                     (holdings acct1)\<rparr>)
                         | None \<Rightarrow>
                             record_order e rnd symbol qty side price
                               (acct1\<lparr>holdings := holdings acct1 @
                                  [\<lparr>h_symbol = symbol, h_qty = qty, h_price = price\<rparr>]\<rparr>)
                  else if side = Some ''SELL'' then
                    case find (\<lambda>h. h_symbol h = symbol) (holdings acct) of
                      None \<Rightarrow> (Inr (Rejected ''Insufficient holdings''), acct)
                    | Some existing \<Rightarrow>
                        if js_lt (h_qty existing) qty
                        then (Inr (Rejected ''Insufficient holdings''), acct)
                        else
                          let newQty = js_sub (h_qty existing) qty;
                              acct1 = acct\<lparr>balance := js_add (balance acct) orderValue,
                                holdings := update_first symbol (\<lambda>h. h\<lparr>h_qty := newQty\<rparr>)
                                  (holdings acct)\<rparr>;
                              acct2 = (if js_seq newQty (Fin 0)
                                       then acct1\<lparr>holdings :=
                                         filter (\<lambda>h. h_symbol h \<noteq> symbol) (holdings acct1)\<rparr>
                                       else acct1)
                          in record_order e rnd symbol qty side price acct2
                  else record_order e rnd symbol qty side price acct)"

text \<open>
  The loop of \<open>get-history\<close>, newest day first: iteration \<open>i\<close> reads four draws (the
  change, the high, the low, the volume) and hands the previous close to the next one. Its
  record carries the date string \<open>dates i\<close> of the day \<open>i\<close> days back.
\<close>

function history_loop ::
  "(nat \<Rightarrow> real) \<Rightarrow> (nat \<Rightarrow> string) \<Rightarrow> real \<Rightarrow> nat \<Rightarrow> real \<Rightarrow> ohlc list \<Rightarrow> ohlc list" where
  "history_loop rnd dates days i currentClose history =
     (if real i < days then
        let volatility = currentClose * 0.02;
            change = (rnd (4 * i) - 0.5) * volatility;
            prevClose = currentClose - change;
            opn = prevClose;
            cls = currentClose;
            high = max opn cls + rnd (4 * i + 1) * volatility * 0.5;
            low = min opn cls - rnd (4 * i + 2) * volatility * 0.5
        in history_loop rnd dates days (Suc i) prevClose
             (history @
               [\<lparr>d_date = dates i, d_open = toFixed2 opn, d_high = toFixed2 high,
                 d_low = toFixed2 low, d_close = toFixed2 cls,
                 d_volume = \<lfloor>rnd (4 * i + 3) * 1000000\<rfloor> + 50000\<rparr>])
      else history)"
  by pat_completeness auto
termination
proof (relation "measure (\<lambda>(rnd, dates, days, i, currentClose, history). nat \<lceil>days\<rceil> - i)")
  show "wf (measure (\<lambda>(rnd, dates, days, i, currentClose, history). nat \<lceil>days\<rceil> - i))"
    by simp
next
  fix rnd :: "nat \<Rightarrow> real" and dates :: "nat \<Rightarrow> string" and days :: real and i :: nat
    and currentClose :: real and history :: "ohlc list"
    and x xa xb xc xd xe xf :: real
  assume "real i < days"
  then have "i < nat \<lceil>days\<rceil>"
    by linarith
  then show "((rnd, dates, days, Suc i, xb, history @
        [\<lparr>d_date = dates i, d_open = toFixed2 xc, d_high = toFixed2 xe,
          d_low = toFixed2 xf, d_close = toFixed2 xd,
          d_volume = \<lfloor>rnd (4 * i + 3) * 1000000\<rfloor> + 50000\<rparr>]),
      (rnd, dates, days, i, currentClose, history))
    \<in> measure (\<lambda>(rnd, dates, days, i, currentClose, history). nat \<lceil>days\<rceil> - i)"
    by simp
qed

declare history_loop.simps [simp del]

text \<open>The case \<open>get-history\<close>; \<open>params.days || 30\<close> takes 30 for a missing or zero
  \<open>days\<close>.\<close>

definition get_history ::
  "env \<Rightarrow> (nat \<Rightarrow> real) \<Rightarrow> params \<Rightarrow> marketState \<Rightarrow> error + result" where
  "get_history e rnd ps m =
     (case p_symbol ps of
        None \<Rightarrow> Inl (cannot_read ''toUpperCase'')
      | Some s \<Rightarrow>
          let histSymbol = toUpperCase s
          in case map_of (stocks m) histSymbol of
               None \<Rightarrow> Inr (ErrorResult ''Symbol not found'')
             | Some st \<Rightarrow>
                 let days = (case p_days ps of None \<Rightarrow> 30 | Some d \<Rightarrow> if d = 0 then 30 else d)
                 in Inr (HistoryResult histSymbol
                      (rev (history_loop rnd (date_of e) days 0 (s_price st) []))))"

text \<open>The case \<open>get-holdings\<close>: each holding with its live price and its profit.\<close>

definition holding_with_val :: "marketState \<Rightarrow> holding \<Rightarrow> holding_val" where
  "holding_with_val m h =
     (let currentPrice =
            (case map_of (stocks m) (h_symbol h) of
               None \<Rightarrow> h_price h
             | Some st \<Rightarrow> if s_price st = 0 then h_price h else Fin (s_price st))
      in \<lparr>hv_symbol = h_symbol h, hv_qty = h_qty h, hv_price = h_price h,
          current_price = currentPrice,
          pnl = js_toFixed2 (js_mul (js_sub currentPrice (h_price h)) (h_qty h))\<rparr>)"

definition get_quote :: "params \<Rightarrow> marketState \<Rightarrow> error + result" where
  "get_quote ps m =
     (case p_symbol ps of
        None \<Rightarrow> Inl (cannot_read ''toUpperCase'')
      | Some s \<Rightarrow>
          (case map_of (stocks m) (toUpperCase s) of
             None \<Rightarrow> Inr (ErrorResult ''Symbol not found'')
           | Some st \<Rightarrow>
               Inr (QuoteResult (toUpperCase s) (s_price st) (s_trend st)
                     (toFixed2 (s_price st * 0.999), 100)
                     (toFixed2 (s_price st * 1.001), 150))))"

text \<open>The case \<open>get-market-status\<close>: the instruments sorted by price, highest first (the
  sort is stable); reading the first of an empty list throws.\<close>

definition get_market_status :: "(nat \<Rightarrow> real) \<Rightarrow> marketState \<Rightarrow> error + result" where
  "get_market_status rnd m =
     (let sorted = sort_key (\<lambda>(name, st). - s_price st) (stocks m)
      in case sorted of
           [] \<Rightarrow> Inl (cannot_read ''0'')
         | first # _ \<Rightarrow>
             Inr (MarketStatusResult ''OPEN'' (18500 + rnd 0 * 100) (fst first)
                   (fst (last sorted)) (map fst (stocks m))))"

text \<open>
  \<open>executeTool\<close>: the market is refreshed, the session is looked up (and created when
  absent), then the tool name selects the case. The result is the returned object or the
  thrown error, with the module state the call leaves behind.
\<close>

definition executeTool ::
  "env \<Rightarrow> string \<Rightarrow> params \<Rightarrow> string option \<Rightarrow> world \<Rightarrow> (error + result) \<times> world" where
  "executeTool e toolName ps sessionId w =
     (let (m, used) = updateMarket (now e) (random e) (market w);
          rnd = (\<lambda>k. random e (used + k));
          ((id, acct), ss) = getSession sessionId (sessions w);
          w1 = \<lparr>sessions = ss, market = m\<rparr>
      in if toolName = ''init'' then
           (Inr (InitResult ''Account reset successful. Market is open.'' 100000 ''OPEN''),
            w1\<lparr>sessions := ss(id \<mapsto> createAccount)\<rparr>)
         else if toolName = ''get-account'' then
           (Inr (AccountResult id (balance acct) ''INR'' ''ACTIVE''), w1)
         else if toolName = ''get-holdings'' then
           (Inr (HoldingsResult (map (holding_with_val m) (holdings acct))), w1)
         else if toolName = ''get-orders'' then
           (Inr (OrdersResult (orders acct)), w1)
         else if toolName = ''get-history'' then
           (get_history e rnd ps m, w1)
         else if toolName = ''place-order'' then
           (case place_order e rnd ps acct m of
              (r, acct') \<Rightarrow> (r, w1\<lparr>sessions := ss(id \<mapsto> acct')\<rparr>))
         else if toolName = ''get-quote'' then
           (get_quote ps m, w1)
         else if toolName = ''get-market-news'' then
           (Inr (NewsResult (news m) ''MIXED''), w1)
         else if toolName = ''get-market-status'' then
           (get_market_status rnd m, w1)
         else (Inl (Error (''Unknown tool: '' @ toolName)), w1))"

section \<open>The request handler\<close>

text \<open>
  \<open>body.params\<close> is one JSON object read in two ways: \<open>tools/call\<close> and
  \<open>resources/read\<close> read its \<open>name\<close>, \<open>arguments\<close> and \<open>uri\<close>; the simple protocol
  passes the object itself as the tool's arguments (\<open>rp_args\<close>).
\<close>

record rpc_params =
  rp_name :: "string option"
  rp_arguments :: "params option"
  rp_uri :: "string option"
  rp_args :: params

record body =
  jsonrpc :: "string option"
  rpc_method :: "string option"
  rpc_params :: "rpc_params option"
  rpc_id :: "int option"
  b_sessionId :: "string option"
  b_tool :: "string option"

definition empty_body :: body where
  "empty_body =
     \<lparr>jsonrpc = None, rpc_method = None, rpc_params = None, rpc_id = None,
      b_sessionId = None, b_tool = None\<rparr>"

record request =
  http_method :: string
  x_session_id :: "string option"
  req_body :: "body option"

datatype rpc_result =
    InitializeResult string string string
  | EmptyResult
  | ToolsList "(string \<times> string \<times> string list) list"
  | ResourcesList "(string \<times> string \<times> string \<times> string) list"
  | ResourceContents string string string
  | PromptsList "string list"
  | ToolContent result bool

datatype response =
    End nat
  | JsonRpcResult "int option" rpc_result
  | JsonRpcError "int option" int string
  | Json result
  | HttpError nat string

text \<open>The catalogue of \<open>tools/list\<close>: name, description and required arguments.\<close>

definition tool_catalogue :: "(string \<times> string \<times> string list) list" where
  "tool_catalogue =
     [(''init'', ''Reset session and create new account. Use this to start fresh.'', []),
      (''get-account'', ''Get current available balance and funds.'', []),
      (''get-holdings'', ''Get list of stocks currently owned in portfolio.'', []),
      (''get-orders'', ''Get history of all orders placed.'', []),
      (''get-history'', ''Get historical OHLC price data for analysis.'', [''symbol'']),
      (''place-order'', ''Place a buy or sell order for a stock.'',
         [''symbol'', ''qty'', ''side'']),
      (''get-quote'', ''Get live price and depth for a stock.'', [''symbol'']),
      (''get-market-news'', ''Get latest financial news headlines and market sentiment.'', []),
      (''get-market-status'',
         ''Get overall market status, top gainers/losers, and index levels.'', [])]"

fun join :: "string \<Rightarrow> string list \<Rightarrow> string" where
  "join sep [] = []"
| "join sep [x] = x"
| "join sep (x # y # ys) = x @ sep @ join sep (y # ys)"

definition alerts_text :: "news_item list \<Rightarrow> string" where
  "alerts_text ns =
     ''=== MARKET ALERTS ==='' @ [CHR 0x0A] @
     join [CHR 0x0A] (map (\<lambda>n. ''['' @ sentiment n @ ''] '' @ n_symbol n @ '': '' @ headline n) ns) @
     [CHR 0x0A] @ ''=====================''"

text \<open>A tool name that is \<open>undefined\<close> matches no case of the dispatcher and prints as
  \<open>undefined\<close> in its message.\<close>

definition tool_name :: "string option \<Rightarrow> string" where
  "tool_name n = (case n of None \<Rightarrow> ''undefined'' | Some s \<Rightarrow> s)"

text \<open>
  \<open>handler\<close>: the response sent and the module state afterwards. A \<open>tools/call\<close>
  catches what the dispatcher throws; everything else thrown ends in the outer
  \<open>catch\<close> as a status 500.
\<close>

definition handler :: "env \<Rightarrow> request \<Rightarrow> world \<Rightarrow> response \<times> world" where
  "handler e req w =
     (if http_method req = ''OPTIONS'' then (End 200, w)
      else
        let b = (case req_body req of None \<Rightarrow> empty_body | Some b \<Rightarrow> b)
        in if jsonrpc b = Some ''2.0'' then
             let method = rpc_method b; ps = rpc_params b; i = rpc_id b
             in if method = Some ''initialize'' then
                  (JsonRpcResult i (InitializeResult ''2024-11-05'' ''zerodha-mock'' ''1.0.0''), w)
                else if method = Some ''notifications/initialized'' then
                  (JsonRpcResult i EmptyResult, w)
                else if method = Some ''ping'' then
                  (JsonRpcResult i EmptyResult, w)
                else if method = Some ''tools/list'' then
                  (JsonRpcResult i (ToolsList tool_catalogue), w)
                else if method = Some ''resources/list'' then
                  (JsonRpcResult i (ResourcesList
                     [(''market://alerts'', ''Market Alerts'',
                       ''Real-time market alerts and significant events summary'',
                       ''text/plain'')]), w)
                else if method = Some ''resources/read'' then
                  (case ps of
                     None \<Rightarrow> (HttpError 500 (error_message (cannot_read ''uri'')), w)
                   | Some p \<Rightarrow>
                       if rp_uri p = Some ''market://alerts''
                       then (JsonRpcResult i (ResourceContents ''market://alerts'' ''text/plain''
                               (alerts_text (news (market w)))), w)
                       else (JsonRpcError i (- 32602) ''Resource not found'', w))
                else if method = Some ''prompts/list'' then
                  (JsonRpcResult i (PromptsList []), w)
                else if method = Some ''tools/call'' then
                  (case ps of
                     None \<Rightarrow> (JsonRpcError i (- 32603) (error_message (cannot_read ''name'')), w)
                   | Some p \<Rightarrow>
                       (case executeTool e (tool_name (rp_name p))
                               (case rp_arguments p of None \<Rightarrow> no_params | Some a \<Rightarrow> a)
                               (Some ''demo-session'') w of
                          (Inr r, w') \<Rightarrow> (JsonRpcResult i (ToolContent r False), w')
                        | (Inl err, w') \<Rightarrow> (JsonRpcError i (- 32603) (error_message err), w')))
                else (JsonRpcError i (- 32601) ''Method not found'', w)
           else
             let sessionId = str_or (x_session_id req) (b_sessionId b)
             in if b_tool b = None \<or> b_tool b = Some []
                then (HttpError 400 ''Missing tool parameter'', w)
                else
                  (case executeTool e (tool_name (b_tool b))
                          (case rpc_params b of None \<Rightarrow> no_params | Some p \<Rightarrow> rp_args p)
                          sessionId w of
                     (Inr r, w') \<Rightarrow> (Json r, w')
                   | (Inl err, w') \<Rightarrow> (HttpError 500 (error_message err), w')))"

section \<open>Vocabulary of the properties\<close>

text \<open>The key under which \<open>getSession\<close> files a session id.\<close>

definition session_key :: "string option \<Rightarrow> string" where
  "session_key sid = fst (fst (getSession sid Map.empty))"

text \<open>The account a call for session \<open>sid\<close> works on: the stored one, or the fresh one a
  first reference creates.\<close>

definition account_of :: "string option \<Rightarrow> world \<Rightarrow> account" where
  "account_of sid w = snd (fst (getSession sid (sessions w)))"

text \<open>The market as a call sees it, after the refresh at its start.\<close>

definition market_now :: "env \<Rightarrow> world \<Rightarrow> marketState" where
  "market_now e w = fst (updateMarket (now e) (random e) (market w))"

text \<open>The draws left to the selected case once the refresh has taken its own.\<close>

definition draws_after :: "env \<Rightarrow> world \<Rightarrow> nat \<Rightarrow> real" where
  "draws_after e w k = random e (snd (updateMarket (now e) (random e) (market w)) + k)"

text \<open>The execution price of a \<open>place-order\<close> call for symbol \<open>s\<close>.\<close>

definition execution_price :: "env \<Rightarrow> world \<Rightarrow> string \<Rightarrow> params \<Rightarrow> jsnum" where
  "execution_price e w s ps = order_price (market_now e w) (toUpperCase s) (p_price ps)"

text \<open>The holding of a symbol in an account (the first one, as \<open>find\<close> returns it).\<close>

definition holding_of :: "string \<Rightarrow> account \<Rightarrow> holding option" where
  "holding_of symbol acct = find (\<lambda>h. h_symbol h = symbol) (holdings acct)"

text \<open>A \<open>place-order\<close> call for side \<open>sd\<close> on symbol \<open>s\<close>.\<close>

definition order_for :: "string \<Rightarrow> string \<Rightarrow> params \<Rightarrow> bool" where
  "order_for sd s ps = (p_symbol ps = Some s \<and> str_or (p_side ps) (p_type ps) = Some sd)"




text \<open>The tool names and the JSON-RPC methods with a case of their own.\<close>

definition known_tools :: "string list" where
  "known_tools =
     [''init'', ''get-account'', ''get-holdings'', ''get-orders'', ''get-history'',
      ''place-order'', ''get-quote'', ''get-market-news'', ''get-market-status'']"

definition known_methods :: "string list" where
  "known_methods =
     [''initialize'', ''notifications/initialized'', ''ping'', ''tools/list'',
      ''resources/list'', ''resources/read'', ''prompts/list'', ''tools/call'']"

text \<open>One iteration of the loop of \<open>get-history\<close>, started at close \<open>c\<close>: the close it
  hands on, and the record it pushes.\<close>

definition prev_close :: "(nat \<Rightarrow> real) \<Rightarrow> nat \<Rightarrow> real \<Rightarrow> real" where
  "prev_close rnd i c = c - (rnd (4 * i) - 0.5) * (c * 0.02)"

definition history_entry :: "(nat \<Rightarrow> real) \<Rightarrow> (nat \<Rightarrow> string) \<Rightarrow> nat \<Rightarrow> real \<Rightarrow> ohlc" where
  "history_entry rnd dates i c =
     \<lparr>d_date = dates i,
      d_open = toFixed2 (prev_close rnd i c),
      d_high = toFixed2 (max (prev_close rnd i c) c + rnd (4 * i + 1) * (c * 0.02) * 0.5),
      d_low = toFixed2 (min (prev_close rnd i c) c - rnd (4 * i + 2) * (c * 0.02) * 0.5),
      d_close = toFixed2 c,
      d_volume = \<lfloor>rnd (4 * i + 3) * 1000000\<rfloor> + 50000\<rparr>"

text \<open>The records of \<open>k\<close> successive iterations, from iteration \<open>i\<close> at close
  \<open>c\<close> on, newest first.\<close>

fun history_from ::
  "(nat \<Rightarrow> real) \<Rightarrow> (nat \<Rightarrow> string) \<Rightarrow> nat \<Rightarrow> nat \<Rightarrow> real \<Rightarrow> ohlc list" where
  "history_from rnd dates 0 i c = []"
| "history_from rnd dates (Suc k) i c =
     history_entry rnd dates i c # history_from rnd dates k (Suc i) (prev_close rnd i c)"

text \<open>The history a call returned, if it returned one.\<close>

definition history_of :: "error + result \<Rightarrow> ohlc list option" where
  "history_of r = (case r of Inr (HistoryResult name h) \<Rightarrow> Some h | _ \<Rightarrow> None)"

text \<open>The length the loop of \<open>get-history\<close> runs to for a given \<open>params.days\<close>.\<close>

definition history_days :: "real option \<Rightarrow> nat" where
  "history_days d = (case d of None \<Rightarrow> 30 | Some x \<Rightarrow> if x = 0 then 30 else nat \<lceil>x\<rceil>)"


text \<open>Example dates: the strings of a host whose clock reads noon UTC on 15 January 2024
  and whose local time is UTC, for up to 45 days back.\<close>

definition two_digits :: "nat \<Rightarrow> string" where
  "two_digits n = [''0123456789'' ! (n div 10), ''0123456789'' ! (n mod 10)]"

definition example_dates :: "nat \<Rightarrow> string" where
  "example_dates i =
     (if i < 15 then ''2024-01-'' @ two_digits (15 - i) else ''2023-12-'' @ two_digits (46 - i))"

text \<open>The strings of a host in New York whose clock reads 23:30 UTC on 14 March 2022, for
  up to three days back: the local time is 19:30 on each day, which is 23:30 UTC on the
  14th and 13th (at 4 hours from UTC) and 00:30 UTC of the next day before the change of
  13 March (at 5 hours from UTC).\<close>

definition spring_dates :: "nat \<Rightarrow> string" where
  "spring_dates i =
     (if i < 4 then [''2022-03-14'', ''2022-03-13'', ''2022-03-13'', ''2022-03-12''] ! i else [])"

text \<open>Example inputs: a call one second after load time with every draw at \<open>1/2\<close>, and
  the arguments of an order.\<close>

definition example_env :: env where
  "example_env = \<lparr>now = 1000, date_of = example_dates, random = (\<lambda>k. 1 / 2)\<rparr>"

definition order_params :: "string \<Rightarrow> jsnum \<Rightarrow> string \<Rightarrow> params" where
  "order_params s n sd =
     \<lparr>p_symbol = Some s, p_qty = n, p_side = Some sd, p_type = None, p_price = None,
      p_days = None\<rparr>"

text \<open>The state after one more \<open>place-order\<close> call of the default session.\<close>

definition example_place :: "params \<Rightarrow> world \<Rightarrow> world" where
  "example_place ps w = snd (executeTool example_env ''place-order'' ps None w)"



text \<open>A JSON-RPC request for method \<open>m\<close> that names tool \<open>t\<close>.\<close>

definition example_request :: "string \<Rightarrow> string \<Rightarrow> request" where
  "example_request m t =
     \<lparr>http_method = ''POST'', x_session_id = None,
      req_body = Some
        \<lparr>jsonrpc = Some ''2.0'', rpc_method = Some m,
         rpc_params = Some \<lparr>rp_name = Some t, rp_arguments = None, rp_uri = None,
                          rp_args = no_params\<rparr>,
         rpc_id = Some 1, b_sessionId = None, b_tool = None\<rparr>\<rparr>"

text \<open>The arguments of a \<open>get-history\<close> call, and a call at time \<open>t\<close> whose draws
  are all \<open>r\<close>.\<close>

definition history_params :: "string \<Rightarrow> real option \<Rightarrow> params" where
  "history_params s d =
     \<lparr>p_symbol = Some s, p_qty = NaN, p_side = None, p_type = None, p_price = None,
      p_days = d\<rparr>"

definition env_at :: "int \<Rightarrow> real \<Rightarrow> env" where
  "env_at t r = \<lparr>now = t, date_of = example_dates, random = (\<lambda>k. r)\<rparr>"



text \<open>The open, high, low and close of a record.\<close>

definition ohlc_values :: "ohlc \<Rightarrow> real \<times> real \<times> real \<times> real" where
  "ohlc_values x = (d_open x, d_high x, d_low x, d_close x)"

text \<open>Three days of TCS history from the initial price, every draw at \<open>1/4\<close>.\<close>

definition example_history :: "ohlc list" where
  "example_history = rev (history_from (random (env_at 1000 (1 / 4))) example_dates 3 0 3450)"

section \<open>Sessions\<close>

lemma getSession_key: "fst (fst (getSession sid ss)) = session_key sid"
  by (simp add: getSession_def session_key_def Let_def split: option.splits)

lemma getSession_stored:
  "snd (getSession sid ss) (session_key sid) = Some (snd (fst (getSession sid ss)))"
  by (simp add: getSession_def session_key_def Let_def split: option.splits)

lemma getSession_other:
  "k \<noteq> session_key sid \<Longrightarrow> snd (getSession sid ss) k = ss k"
  by (simp add: getSession_def session_key_def Let_def split: option.splits)

lemma getSession_eq:
  "getSession sid ss = ((session_key sid, snd (fst (getSession sid ss))), snd (getSession sid ss))"
  by (metis getSession_key prod.collapse)

lemma getSession_after_store:
  "snd (fst (getSession sid ((snd (getSession sid ss))(session_key sid \<mapsto> a)))) = a"
  by (simp add: getSession_def session_key_def Let_def split: option.splits)

section \<open>The tool \<open>init\<close>\<close>

lemma executeTool_init:
  "executeTool e ''init'' ps sid w =
     (Inr (InitResult ''Account reset successful. Market is open.'' 100000 ''OPEN''),
      \<lparr>sessions = (snd (getSession sid (sessions w)))(session_key sid \<mapsto> createAccount),
       market = market_now e w\<rparr>)"
  unfolding executeTool_def market_now_def
  by (subst getSession_eq) (simp add: Let_def split: prod.splits)

text \<open>
  Claim C7. Whatever the session and whatever its account was, \<open>init\<close> stores a freshly
  seeded account under the session's key: balance 100000, the three preset holdings
  (TCS 10 at 3400, RELIANCE 5 at 2800, INFY 15 at 1500) and no orders, so that all prior
  orders are gone; the call reports the balance 100000.
\<close>

theorem init_resets_account:
  "fst (executeTool e ''init'' ps sid w) =
      Inr (InitResult ''Account reset successful. Market is open.'' 100000 ''OPEN'') \<and>
   sessions (snd (executeTool e ''init'' ps sid w)) (session_key sid) = Some createAccount \<and>
   account_of sid (snd (executeTool e ''init'' ps sid w)) =
     \<lparr>balance = Fin 100000,
      holdings =
        [\<lparr>h_symbol = ''TCS'', h_qty = Fin 10, h_price = Fin 3400\<rparr>,
         \<lparr>h_symbol = ''RELIANCE'', h_qty = Fin 5, h_price = Fin 2800\<rparr>,
         \<lparr>h_symbol = ''INFY'', h_qty = Fin 15, h_price = Fin 1500\<rparr>],
      orders = []\<rparr>"
  by (simp add: executeTool_init account_of_def getSession_after_store)
     (simp add: createAccount_def)

section \<open>Market refresh\<close>

lemma move_stocks_length: "length (move_stocks rnd k xs) = length xs"
  by (induction xs arbitrary: k) auto

lemma move_stocks_keys: "map fst (move_stocks rnd k xs) = map fst xs"
  by (induction xs arbitrary: k) auto





section \<open>Placing orders\<close>

lemma executeTool_place_order:
  "executeTool e ''place-order'' ps sid w =
     (fst (place_order e (draws_after e w) ps (account_of sid w) (market_now e w)),
      \<lparr>sessions = (snd (getSession sid (sessions w)))
         (session_key sid \<mapsto>
            snd (place_order e (draws_after e w) ps (account_of sid w) (market_now e w))),
       market = market_now e w\<rparr>)"
proof -
  have d: "(\<lambda>k. random e (snd (updateMarket (now e) (random e) (market w)) + k)) = draws_after e w"
    by (simp add: draws_after_def fun_eq_iff)
  show ?thesis
    unfolding executeTool_def market_now_def account_of_def
    by (subst getSession_eq) (simp add: Let_def case_prod_beta d)
qed

lemma account_after_place_order:
  "account_of sid (snd (executeTool e ''place-order'' ps sid w)) =
     snd (place_order e (draws_after e w) ps (account_of sid w) (market_now e w))"
  by (simp add: executeTool_place_order account_of_def getSession_after_store)

lemma result_place_order:
  "fst (executeTool e ''place-order'' ps sid w) =
     fst (place_order e (draws_after e w) ps (account_of sid w) (market_now e w))"
  by (simp add: executeTool_place_order)

lemma market_now_keys: "map fst (stocks (market_now e w)) = map fst (stocks (market w))"
  by (simp add: market_now_def updateMarket_def move_stocks_keys)

lemma market_now_known:
  "(map_of (stocks (market_now e w)) k = None) = (map_of (stocks (market w)) k = None)"
proof -
  have "fst ` set (stocks (market_now e w)) = fst ` set (stocks (market w))"
    using market_now_keys [of e w] by (metis set_map)
  then show ?thesis by (simp add: map_of_eq_None_iff)
qed

lemma js_sub_not_negative: "\<not> js_lt a b \<Longrightarrow> \<not> js_lt (js_sub a b) (Fin 0)"
  by (cases a; cases b) (simp_all add: js_sub_def)

lemma place_order_buy:
  assumes "order_for ''BUY'' s ps" and "map_of (stocks m) (toUpperCase s) \<noteq> None"
  shows "place_order e rnd ps acct m =
     (let symbol = toUpperCase s; qty = p_qty ps; price = order_price m symbol (p_price ps);
          orderValue = js_mul qty price
      in if js_lt (balance acct) orderValue
         then (Inr (Rejected ''Insufficient funds''), acct)
         else
           let acct1 = acct\<lparr>balance := js_sub (balance acct) orderValue\<rparr>
           in case holding_of symbol acct of
                Some existing \<Rightarrow>
                  record_order e rnd symbol qty (Some ''BUY'') price
                    (acct1\<lparr>holdings := update_first symbol
                       (\<lambda>h. h\<lparr>h_qty := js_add (h_qty existing) qty,
                              h_price := js_toFixed2
                                (js_div (js_add (js_mul (h_qty existing) (h_price existing)) orderValue)
                                   (js_add (h_qty existing) qty))\<rparr>)
                       (holdings acct)\<rparr>)
              | None \<Rightarrow>
                  record_order e rnd symbol qty (Some ''BUY'') price
                    (acct1\<lparr>holdings := holdings acct @
                       [\<lparr>h_symbol = symbol, h_qty = qty, h_price = price\<rparr>]\<rparr>))"
  using assms
  by (auto simp: place_order_def order_for_def holding_of_def Let_def split: option.splits)

lemma record_order_balance [simp]:
  "balance (snd (record_order e rnd symbol qty side price acct)) = balance acct"
  by (simp add: record_order_def Let_def)

lemma record_order_holdings [simp]:
  "holdings (snd (record_order e rnd symbol qty side price acct)) = holdings acct"
  by (simp add: record_order_def Let_def)

text \<open>
  Claim C1. A \<open>place-order\<close> call with side \<open>BUY\<close> on a symbol of the market, in any
  state: when the quantity times the execution price exceeds the balance, the call returns
  \<open>REJECTED\<close> with reason \<open>Insufficient funds\<close> and the session's account (balance,
  holdings, orders) is what it was. And whatever the outcome of the call, a balance that was
  not negative before it is not negative after it.
\<close>

theorem buy_insufficient_funds:
  assumes "order_for ''BUY'' s ps"
    and "map_of (stocks (market w)) (toUpperCase s) \<noteq> None"
  shows "(js_lt (balance (account_of sid w)) (js_mul (p_qty ps) (execution_price e w s ps)) \<longrightarrow>
            fst (executeTool e ''place-order'' ps sid w) = Inr (Rejected ''Insufficient funds'') \<and>
            account_of sid (snd (executeTool e ''place-order'' ps sid w)) = account_of sid w) \<and>
         (\<not> js_lt (balance (account_of sid w)) (Fin 0) \<longrightarrow>
            \<not> js_lt (balance (account_of sid (snd (executeTool e ''place-order'' ps sid w)))) (Fin 0))"
proof -
  let ?m = "market_now e w" and ?a = "account_of sid w"
  let ?ov = "js_mul (p_qty ps) (execution_price e w s ps)"
  from assms(2) have known: "map_of (stocks ?m) (toUpperCase s) \<noteq> None"
    by (simp add: market_now_known)
  note po = place_order_buy [OF assms(1) known, of e "draws_after e w" ?a]
  show ?thesis
  proof (cases "js_lt (balance ?a) ?ov")
    case True
    then have "place_order e (draws_after e w) ps ?a ?m = (Inr (Rejected ''Insufficient funds''), ?a)"
      by (simp add: po execution_price_def Let_def)
    then show ?thesis
      by (simp add: result_place_order account_after_place_order)
  next
    case False
    then have "balance (snd (place_order e (draws_after e w) ps ?a ?m)) = js_sub (balance ?a) ?ov"
      by (simp add: po execution_price_def Let_def split: option.splits)
    with False show ?thesis
      by (simp add: account_after_place_order js_sub_not_negative)
  qed
qed


lemma upper_tcs: "toUpperCase ''tcs'' = ''TCS''"
  by code_simp

lemma example_market: "market_now example_env (initialWorld 0) = initialMarket 0"
  by (simp add: market_now_def example_env_def initialWorld_def updateMarket_def initialMarket_def)

lemma example_account: "account_of None (initialWorld 0) = createAccount"
  by (simp add: account_of_def getSession_def initialWorld_def Let_def)

lemma example_tcs: "map_of (stocks (initialMarket t0)) ''TCS'' = Some \<lparr>s_price = 3450, s_trend = UP\<rparr>"
  by (simp add: initialMarket_def initialStocks_def)

theorem buy_insufficient_funds_witness:
  "order_for ''BUY'' ''tcs'' (order_params ''tcs'' (Fin 100) ''BUY'') \<and>
   map_of (stocks (market (initialWorld 0))) (toUpperCase ''tcs'') \<noteq> None \<and>
   js_lt (balance (account_of None (initialWorld 0)))
     (js_mul (p_qty (order_params ''tcs'' (Fin 100) ''BUY''))
        (execution_price example_env (initialWorld 0) ''tcs'' (order_params ''tcs'' (Fin 100) ''BUY''))) \<and>
   fst (executeTool example_env ''place-order'' (order_params ''tcs'' (Fin 100) ''BUY'') None
          (initialWorld 0)) = Inr (Rejected ''Insufficient funds'') \<and>
   account_of None (snd (executeTool example_env ''place-order''
          (order_params ''tcs'' (Fin 100) ''BUY'') None (initialWorld 0))) = createAccount \<and>
   \<not> js_lt (balance (account_of None (initialWorld 0))) (Fin 0) \<and>
   \<not> js_lt (balance (account_of None (snd (executeTool example_env ''place-order''
          (order_params ''tcs'' (Fin 100) ''BUY'') None (initialWorld 0))))) (Fin 0)"
proof -
  let ?ps = "order_params ''tcs'' (Fin 100) ''BUY''"
  have h1: "order_for ''BUY'' ''tcs'' ?ps"
    by (simp add: order_for_def order_params_def str_or_def)
  have h2: "map_of (stocks (market (initialWorld 0))) (toUpperCase ''tcs'') \<noteq> None"
    by (simp add: upper_tcs initialWorld_def example_tcs)
  have h3: "js_lt (balance (account_of None (initialWorld 0)))
     (js_mul (p_qty ?ps) (execution_price example_env (initialWorld 0) ''tcs'' ?ps))"
    by (simp add: example_account createAccount_def execution_price_def example_market
        upper_tcs order_price_def example_tcs order_params_def)
  have h4: "\<not> js_lt (balance (account_of None (initialWorld 0))) (Fin 0)"
    by (simp add: example_account createAccount_def)
  from buy_insufficient_funds [OF h1 h2, of None example_env] h1 h2 h3 h4
  show ?thesis by (simp add: example_account)
qed


lemma record_order_result:
  "record_order e rnd symbol qty side price acct =
     (Inr (Complete (rnd 0) price (side, qty, symbol, price)),
      acct\<lparr>orders := orders acct @
        [\<lparr>o_id = rnd 0, o_symbol = symbol, o_qty = qty, o_side = side, o_price = price,
          o_time = now e\<rparr>]\<rparr>)"
  by (simp add: record_order_def Let_def)

lemma place_order_other_side:
  assumes "p_symbol ps = Some s" and "map_of (stocks m) (toUpperCase s) \<noteq> None"
    and "str_or (p_side ps) (p_type ps) \<noteq> Some ''BUY''"
    and "str_or (p_side ps) (p_type ps) \<noteq> Some ''SELL''"
  shows "place_order e rnd ps acct m =
     record_order e rnd (toUpperCase s) (p_qty ps) (str_or (p_side ps) (p_type ps))
       (order_price m (toUpperCase s) (p_price ps)) acct"
  using assms by (auto simp: place_order_def Let_def)

text \<open>
  Claim C9. A \<open>place-order\<close> call on a symbol of the market whose side (\<open>params.side\<close>,
  or \<open>params.type\<close> when that is missing or empty) is neither \<open>BUY\<close> nor \<open>SELL\<close>,
  a missing side included, is not rejected, whatever the quantity: it returns \<open>COMPLETE\<close>
  at the execution price, appends one order record to the session's orders, and leaves the
  balance and the holdings as they were.
\<close>

theorem other_side_completes:
  assumes "p_symbol ps = Some s"
    and "map_of (stocks (market w)) (toUpperCase s) \<noteq> None"
    and "str_or (p_side ps) (p_type ps) \<noteq> Some ''BUY''"
    and "str_or (p_side ps) (p_type ps) \<noteq> Some ''SELL''"
  shows "fst (executeTool e ''place-order'' ps sid w) =
           Inr (Complete (draws_after e w 0) (execution_price e w s ps)
                 (str_or (p_side ps) (p_type ps), p_qty ps, toUpperCase s,
                  execution_price e w s ps)) \<and>
         orders (account_of sid (snd (executeTool e ''place-order'' ps sid w))) =
           orders (account_of sid w) @
             [\<lparr>o_id = draws_after e w 0, o_symbol = toUpperCase s, o_qty = p_qty ps,
               o_side = str_or (p_side ps) (p_type ps),
               o_price = execution_price e w s ps, o_time = now e\<rparr>] \<and>
         balance (account_of sid (snd (executeTool e ''place-order'' ps sid w))) =
           balance (account_of sid w) \<and>
         holdings (account_of sid (snd (executeTool e ''place-order'' ps sid w))) =
           holdings (account_of sid w)"
proof -
  from assms(2) have known: "map_of (stocks (market_now e w)) (toUpperCase s) \<noteq> None"
    by (simp add: market_now_known)
  show ?thesis
    by (simp add: result_place_order account_after_place_order execution_price_def
        place_order_other_side [OF assms(1) known assms(3) assms(4)] record_order_result)
qed

theorem other_side_completes_witness:
  "p_symbol (order_params ''tcs'' (Fin 5) ''HOLD'') = Some ''tcs'' \<and>
   map_of (stocks (market (initialWorld 0))) (toUpperCase ''tcs'') \<noteq> None \<and>
   str_or (p_side (order_params ''tcs'' (Fin 5) ''HOLD'')) (p_type (order_params ''tcs'' (Fin 5) ''HOLD''))
     \<noteq> Some ''BUY'' \<and>
   str_or (p_side (order_params ''tcs'' (Fin 5) ''HOLD'')) (p_type (order_params ''tcs'' (Fin 5) ''HOLD''))
     \<noteq> Some ''SELL'' \<and>
   fst (executeTool example_env ''place-order'' (order_params ''tcs'' (Fin 5) ''HOLD'') None
         (initialWorld 0)) =
     Inr (Complete (1 / 2) (Fin 3450) (Some ''HOLD'', Fin 5, ''TCS'', Fin 3450)) \<and>
   orders (account_of None (snd (executeTool example_env ''place-order''
         (order_params ''tcs'' (Fin 5) ''HOLD'') None (initialWorld 0)))) =
     [\<lparr>o_id = 1 / 2, o_symbol = ''TCS'', o_qty = Fin 5, o_side = Some ''HOLD'',
       o_price = Fin 3450, o_time = 1000\<rparr>] \<and>
   balance (account_of None (snd (executeTool example_env ''place-order''
         (order_params ''tcs'' (Fin 5) ''HOLD'') None (initialWorld 0)))) = Fin 100000 \<and>
   holdings (account_of None (snd (executeTool example_env ''place-order''
         (order_params ''tcs'' (Fin 5) ''HOLD'') None (initialWorld 0)))) = holdings createAccount"
proof -
  let ?ps = "order_params ''tcs'' (Fin 5) ''HOLD''"
  have h1: "p_symbol ?ps = Some ''tcs''" by (simp add: order_params_def)
  have h2: "map_of (stocks (market (initialWorld 0))) (toUpperCase ''tcs'') \<noteq> None"
    by (simp add: upper_tcs initialWorld_def example_tcs)
  have side: "str_or (p_side ?ps) (p_type ?ps) = Some ''HOLD''"
    by (simp add: order_params_def str_or_def)
  have h3: "str_or (p_side ?ps) (p_type ?ps) \<noteq> Some ''BUY''" by (simp add: side)
  have h4: "str_or (p_side ?ps) (p_type ?ps) \<noteq> Some ''SELL''" by (simp add: side)
  have price: "execution_price example_env (initialWorld 0) ''tcs'' ?ps = Fin 3450"
    by (simp add: execution_price_def example_market upper_tcs order_price_def example_tcs)
  have draw: "draws_after example_env (initialWorld 0) 0 = 1 / 2"
    by (simp add: draws_after_def example_env_def)
  have q: "p_qty ?ps = Fin 5" by (simp add: order_params_def)
  have t: "now example_env = 1000" by (simp add: example_env_def)
  from other_side_completes [OF h1 h2 h3 h4, of example_env None] h1 h2 h3 h4
  show ?thesis
    by (simp add: price draw side q t upper_tcs example_account) (simp add: createAccount_def)
qed

section \<open>The orders list\<close>

lemma place_order_outcome:
  "(fst (place_order e rnd ps acct m) \<in>
       {Inr (Rejected ''Symbol not found''), Inr (Rejected ''Insufficient funds''),
        Inr (Rejected ''Insufficient holdings''), Inl (cannot_read ''toUpperCase'')} \<and>
    snd (place_order e rnd ps acct m) = acct) \<or>
   (\<exists>price side qty symbol.
      fst (place_order e rnd ps acct m) = Inr (Complete (rnd 0) price (side, qty, symbol, price)) \<and>
      orders (snd (place_order e rnd ps acct m)) = orders acct @
        [\<lparr>o_id = rnd 0, o_symbol = symbol, o_qty = qty, o_side = side, o_price = price,
          o_time = now e\<rparr>])"
  by (simp add: place_order_def record_order_result Let_def split: option.splits)

lemma getSession_again:
  "snd (fst (getSession sid (snd (getSession sid ss)))) = snd (fst (getSession sid ss))"
  by (simp add: getSession_def Let_def split: option.splits)

lemma account_after_other_tool:
  assumes "t \<noteq> ''init''" and "t \<noteq> ''place-order''"
  shows "account_of sid (snd (executeTool e t ps sid w)) = account_of sid w"
  using assms
  by (simp add: executeTool_def account_of_def Let_def case_prod_beta getSession_again)

lemma account_after_init:
  "account_of sid (snd (executeTool e ''init'' ps sid w)) = createAccount"
  by (simp add: executeTool_init account_of_def getSession_after_store)

text \<open>
  Claim C10. When \<open>place-order\<close> returns \<open>REJECTED\<close>, the reason is one of
  \<open>Symbol not found\<close>, \<open>Insufficient funds\<close> and \<open>Insufficient holdings\<close>, and the
  session's account, its orders list with it, is what it was: no record is appended for a
  rejected order. And for every tool, the orders list after the call is the list before
  it, or the empty list of \<open>init\<close>, or the list before it with one record appended, in
  which case the call returned \<open>COMPLETE\<close> with the id, price, side, quantity and symbol
  of that record: every entry of the list stems from a completed order.
\<close>

theorem rejected_leaves_orders:
  "(fst (executeTool e ''place-order'' ps sid w) = Inr (Rejected reason) \<longrightarrow>
      (reason = ''Symbol not found'' \<or> reason = ''Insufficient funds'' \<or>
       reason = ''Insufficient holdings'') \<and>
      account_of sid (snd (executeTool e ''place-order'' ps sid w)) = account_of sid w) \<and>
   (orders (account_of sid (snd (executeTool e t ps sid w))) = orders (account_of sid w) \<or>
    t = ''init'' \<and> orders (account_of sid (snd (executeTool e t ps sid w))) = [] \<or>
    (\<exists>oid price side qty symbol.
       fst (executeTool e t ps sid w) = Inr (Complete oid price (side, qty, symbol, price)) \<and>
       orders (account_of sid (snd (executeTool e t ps sid w))) =
         orders (account_of sid w) @
           [\<lparr>o_id = oid, o_symbol = symbol, o_qty = qty, o_side = side, o_price = price,
             o_time = now e\<rparr>]))"
proof (rule conjI)
  show "fst (executeTool e ''place-order'' ps sid w) = Inr (Rejected reason) \<longrightarrow>
      (reason = ''Symbol not found'' \<or> reason = ''Insufficient funds'' \<or>
       reason = ''Insufficient holdings'') \<and>
      account_of sid (snd (executeTool e ''place-order'' ps sid w)) = account_of sid w"
    using place_order_outcome [of e "draws_after e w" ps "account_of sid w" "market_now e w"]
    by (auto simp: result_place_order account_after_place_order)
next
  consider "t = ''init''" | "t = ''place-order''" | "t \<noteq> ''init''" "t \<noteq> ''place-order''"
    by blast
  then show "orders (account_of sid (snd (executeTool e t ps sid w))) = orders (account_of sid w) \<or>
    t = ''init'' \<and> orders (account_of sid (snd (executeTool e t ps sid w))) = [] \<or>
    (\<exists>oid price side qty symbol.
       fst (executeTool e t ps sid w) = Inr (Complete oid price (side, qty, symbol, price)) \<and>
       orders (account_of sid (snd (executeTool e t ps sid w))) =
         orders (account_of sid w) @
           [\<lparr>o_id = oid, o_symbol = symbol, o_qty = qty, o_side = side, o_price = price,
             o_time = now e\<rparr>])"
  proof cases
    case 1
    then show ?thesis by (simp add: account_after_init createAccount_def)
  next
    case 2
    from place_order_outcome [of e "draws_after e w" ps "account_of sid w" "market_now e w"]
    show ?thesis
      unfolding 2 result_place_order account_after_place_order by auto
  next
    case 3
    then show ?thesis by (simp add: account_after_other_tool)
  qed
qed

lemma example_rejected:
  "executeTool example_env ''place-order'' (order_params ''tcs'' (Fin 100) ''BUY'') None
     (initialWorld 0) =
   (Inr (Rejected ''Insufficient funds''),
    \<lparr>sessions = [''demo-session'' \<mapsto> createAccount], market = initialMarket 0\<rparr>)"
proof -
  have o: "order_for ''BUY'' ''tcs'' (order_params ''tcs'' (Fin 100) ''BUY'')"
    by (simp add: order_for_def order_params_def str_or_def)
  have k: "map_of (stocks (initialMarket 0)) (toUpperCase ''tcs'') \<noteq> None"
    by (simp add: upper_tcs example_tcs)
  have s: "snd (getSession None (sessions (initialWorld 0))) = [''demo-session'' \<mapsto> createAccount]"
    by (simp add: getSession_def initialWorld_def Let_def)
  have key: "session_key None = ''demo-session''"
    by (simp add: session_key_def getSession_def Let_def)
  show ?thesis
    by (simp add: executeTool_place_order example_market example_account
        place_order_buy [OF o k] upper_tcs order_price_def example_tcs s key)
       (simp add: order_params_def createAccount_def)
qed

theorem rejected_leaves_orders_witness:
  "fst (executeTool example_env ''place-order'' (order_params ''tcs'' (Fin 100) ''BUY'') None
     (initialWorld 0)) = Inr (Rejected ''Insufficient funds'') \<and>
   account_of None (snd (executeTool example_env ''place-order''
     (order_params ''tcs'' (Fin 100) ''BUY'') None (initialWorld 0))) =
     account_of None (initialWorld 0)"
proof -
  have r: "fst (executeTool example_env ''place-order'' (order_params ''tcs'' (Fin 100) ''BUY'')
      None (initialWorld 0)) = Inr (Rejected ''Insufficient funds'')"
    by (simp add: example_rejected)
  from rejected_leaves_orders [of example_env "order_params ''tcs'' (Fin 100) ''BUY''" None
      "initialWorld 0" "''Insufficient funds''" "''place-order''"] r
  show ?thesis by blast
qed

section \<open>Selling\<close>

lemma place_order_sell:
  assumes "order_for ''SELL'' s ps" and "map_of (stocks m) (toUpperCase s) \<noteq> None"
  shows "place_order e rnd ps acct m =
     (let symbol = toUpperCase s; qty = p_qty ps; price = order_price m symbol (p_price ps)
      in case holding_of symbol acct of
           None \<Rightarrow> (Inr (Rejected ''Insufficient holdings''), acct)
         | Some existing \<Rightarrow>
             if js_lt (h_qty existing) qty
             then (Inr (Rejected ''Insufficient holdings''), acct)
             else
               let newQty = js_sub (h_qty existing) qty;
                   hs = update_first symbol (\<lambda>h. h\<lparr>h_qty := newQty\<rparr>) (holdings acct)
               in record_order e rnd symbol qty (Some ''SELL'') price
                    (acct\<lparr>balance := js_add (balance acct) (js_mul qty price),
                       holdings := (if js_seq newQty (Fin 0)
                                    then filter (\<lambda>h. h_symbol h \<noteq> symbol) hs else hs)\<rparr>))"
  using assms
  by (auto simp: place_order_def order_for_def holding_of_def Let_def split: option.splits)

lemma update_first_set:
  "find (\<lambda>h. h_symbol h = symbol) hs = Some ex \<Longrightarrow>
   set (update_first symbol f hs) \<subseteq> insert (f ex) (set hs)"
  by (induction hs) (auto split: if_splits)

lemma filter_update_first:
  "(\<And>h. h_symbol (f h) = h_symbol h) \<Longrightarrow>
   filter (\<lambda>h. h_symbol h \<noteq> symbol) (update_first symbol f hs) =
   filter (\<lambda>h. h_symbol h \<noteq> symbol) hs"
  by (induction hs) auto


lemma js_sub_self: "js_sub (Fin q) (Fin q) = Fin 0"
  by (simp add: js_sub_def)

text \<open>
  Claim C3, amended. A \<open>place-order\<close> call with side \<open>SELL\<close> on a symbol of the
  market: when the symbol is not held, or the requested quantity exceeds the held one, the
  call returns \<open>REJECTED\<close> (\<open>Insufficient holdings\<close>) and the account, its holdings
  with it, is what it was; when the requested quantity is a finite number equal to the held
  one, the holdings after the call are the holdings of the other symbols, the symbol's entry
  being removed; and every holding the call leaves with a quantity below zero was in the
  holdings, as it is, before the call.
\<close>

theorem sell_checks_holdings:
  assumes "order_for ''SELL'' s ps"
    and "map_of (stocks (market w)) (toUpperCase s) \<noteq> None"
  shows "(holding_of (toUpperCase s) (account_of sid w) = None \<or>
          (\<exists>h. holding_of (toUpperCase s) (account_of sid w) = Some h \<and>
               js_lt (h_qty h) (p_qty ps)) \<longrightarrow>
            fst (executeTool e ''place-order'' ps sid w) = Inr (Rejected ''Insufficient holdings'') \<and>
            account_of sid (snd (executeTool e ''place-order'' ps sid w)) = account_of sid w) \<and>
         (\<forall>h q. holding_of (toUpperCase s) (account_of sid w) = Some h \<and> h_qty h = Fin q \<and>
                p_qty ps = Fin q \<longrightarrow>
            holdings (account_of sid (snd (executeTool e ''place-order'' ps sid w))) =
              filter (\<lambda>x. h_symbol x \<noteq> toUpperCase s) (holdings (account_of sid w)) \<and>
            holding_of (toUpperCase s)
              (account_of sid (snd (executeTool e ''place-order'' ps sid w))) = None) \<and>
         list_all (\<lambda>x. js_lt (h_qty x) (Fin 0) \<longrightarrow> x \<in> set (holdings (account_of sid w)))
           (holdings (account_of sid (snd (executeTool e ''place-order'' ps sid w))))"
proof -
  let ?m = "market_now e w" and ?a = "account_of sid w" and ?sym = "toUpperCase s"
  let ?a' = "account_of sid (snd (executeTool e ''place-order'' ps sid w))"
  from assms(2) have known: "map_of (stocks ?m) ?sym \<noteq> None"
    by (simp add: market_now_known)
  note po = place_order_sell [OF assms(1) known, of e "draws_after e w" ?a]
  have rejected: "fst (executeTool e ''place-order'' ps sid w) = Inr (Rejected ''Insufficient holdings'') \<and>
            ?a' = ?a"
    if "holding_of ?sym ?a = None \<or> (\<exists>h. holding_of ?sym ?a = Some h \<and> js_lt (h_qty h) (p_qty ps))"
    using that by (auto simp: result_place_order account_after_place_order po Let_def)
  have removed: "holdings ?a' = filter (\<lambda>x. h_symbol x \<noteq> ?sym) (holdings ?a) \<and>
      holding_of ?sym ?a' = None"
    if h: "holding_of ?sym ?a = Some h" "h_qty h = Fin q" "p_qty ps = Fin q" for h q
  proof -
    have "holdings ?a' = filter (\<lambda>x. h_symbol x \<noteq> ?sym) (holdings ?a)"
      using h
      by (simp add: account_after_place_order po Let_def js_sub_self js_seq_def
          filter_update_first)
    moreover have "find (\<lambda>x. h_symbol x = ?sym) (filter (\<lambda>x. h_symbol x \<noteq> ?sym) hs) = None" for hs
      by (induction hs) auto
    ultimately show ?thesis by (simp add: holding_of_def)
  qed
  have kept: "x \<in> set (holdings ?a)"
    if x: "x \<in> set (holdings ?a')" "js_lt (h_qty x) (Fin 0)" for x
  proof (cases "holding_of ?sym ?a")
    case None
    then show ?thesis using x(1) by (simp add: account_after_place_order po Let_def)
  next
    case (Some ex)
    show ?thesis
    proof (cases "js_lt (h_qty ex) (p_qty ps)")
      case True
      then show ?thesis using x(1) Some by (simp add: account_after_place_order po Let_def)
    next
      case False
      let ?f = "\<lambda>h. h\<lparr>h_qty := js_sub (h_qty ex) (p_qty ps)\<rparr>"
      from Some have "set (update_first ?sym ?f (holdings ?a)) \<subseteq> insert (?f ex) (set (holdings ?a))"
        by (simp add: holding_of_def update_first_set)
      moreover from x(1) Some False have "x \<in> set (update_first ?sym ?f (holdings ?a))"
        by (simp add: account_after_place_order po Let_def split: if_splits)
      moreover from False x(2) have "x \<noteq> ?f ex"
        using js_sub_not_negative by auto
      ultimately show ?thesis by auto
    qed
  qed
  show ?thesis
  proof (intro conjI)
    show "holding_of ?sym ?a = None \<or>
          (\<exists>h. holding_of ?sym ?a = Some h \<and> js_lt (h_qty h) (p_qty ps)) \<longrightarrow>
            fst (executeTool e ''place-order'' ps sid w) = Inr (Rejected ''Insufficient holdings'') \<and>
            ?a' = ?a"
      using rejected by (rule impI)
    show "\<forall>h q. holding_of ?sym ?a = Some h \<and> h_qty h = Fin q \<and> p_qty ps = Fin q \<longrightarrow>
            holdings ?a' = filter (\<lambda>x. h_symbol x \<noteq> ?sym) (holdings ?a) \<and>
            holding_of ?sym ?a' = None"
      using removed by blast
    show "list_all (\<lambda>x. js_lt (h_qty x) (Fin 0) \<longrightarrow> x \<in> set (holdings ?a)) (holdings ?a')"
      unfolding list_all_iff using kept by blast
  qed
qed


lemma upper_TCS: "toUpperCase ''TCS'' = ''TCS''"
  by code_simp

lemma example_step:
  assumes "market w = initialMarket 0" and "sessions w = [''demo-session'' \<mapsto> a]"
  shows "executeTool example_env ''place-order'' ps None w =
     (fst (place_order example_env (\<lambda>k. 1 / 2) ps a (initialMarket 0)),
      \<lparr>sessions = [''demo-session'' \<mapsto> snd (place_order example_env (\<lambda>k. 1 / 2) ps a (initialMarket 0))],
       market = initialMarket 0\<rparr>)"
proof -
  have m: "market_now example_env w = initialMarket 0"
    by (simp add: market_now_def example_env_def updateMarket_def assms(1) initialMarket_def)
  have d: "draws_after example_env w = (\<lambda>k. 1 / 2)"
    by (simp add: draws_after_def example_env_def fun_eq_iff)
  have a: "account_of None w = a"
    by (simp add: account_of_def getSession_def assms(2) Let_def)
  have s: "snd (getSession None (sessions w)) = [''demo-session'' \<mapsto> a]"
    by (simp add: getSession_def assms(2) Let_def)
  have key: "session_key None = ''demo-session''"
    by (simp add: session_key_def getSession_def Let_def)
  show ?thesis
    by (simp add: executeTool_place_order m d a s key)
qed

lemma example_first_step:
  "executeTool example_env ''place-order'' ps None (initialWorld 0) =
     (fst (place_order example_env (\<lambda>k. 1 / 2) ps createAccount (initialMarket 0)),
      \<lparr>sessions = [''demo-session'' \<mapsto>
          snd (place_order example_env (\<lambda>k. 1 / 2) ps createAccount (initialMarket 0))],
       market = initialMarket 0\<rparr>)"
proof -
  have m: "market_now example_env (initialWorld 0) = initialMarket 0"
    by (rule example_market)
  have d: "draws_after example_env (initialWorld 0) = (\<lambda>k. 1 / 2)"
    by (simp add: draws_after_def example_env_def fun_eq_iff)
  have s: "snd (getSession None (sessions (initialWorld 0))) = [''demo-session'' \<mapsto> createAccount]"
    by (simp add: getSession_def initialWorld_def Let_def)
  have key: "session_key None = ''demo-session''"
    by (simp add: session_key_def getSession_def Let_def)
  show ?thesis
    by (simp add: executeTool_place_order m d example_account s key)
qed

lemma example_account_of: "account_of None \<lparr>sessions = [''demo-session'' \<mapsto> a], market = m\<rparr> = a"
  by (simp add: account_of_def getSession_def Let_def)

lemma order_for_example: "order_for sd s (order_params s n sd) = (sd \<noteq> [])"
  by (simp add: order_for_def order_params_def str_or_def)

lemma example_price: "order_price (initialMarket t0) ''TCS'' pp = Fin 3450"
  by (simp add: order_price_def example_tcs)

lemma example_buy_inf:
  "place_order example_env (\<lambda>k. 1 / 2) (order_params ''TCS'' NInf ''BUY'') createAccount (initialMarket 0) =
     (Inr (Complete (1 / 2) (Fin 3450) (Some ''BUY'', NInf, ''TCS'', Fin 3450)),
      \<lparr>balance = PInf,
       holdings =
        [\<lparr>h_symbol = ''TCS'', h_qty = NInf, h_price = NaN\<rparr>,
         \<lparr>h_symbol = ''RELIANCE'', h_qty = Fin 5, h_price = Fin 2800\<rparr>,
         \<lparr>h_symbol = ''INFY'', h_qty = Fin 15, h_price = Fin 1500\<rparr>],
       orders = [\<lparr>o_id = 1 / 2, o_symbol = ''TCS'', o_qty = NInf, o_side = Some ''BUY'',
          o_price = Fin 3450, o_time = 1000\<rparr>]\<rparr>)"
proof -
  have o: "order_for ''BUY'' ''TCS'' (order_params ''TCS'' NInf ''BUY'')"
    by (simp add: order_for_example)
  have k: "map_of (stocks (initialMarket 0)) (toUpperCase ''TCS'') \<noteq> None"
    by (simp add: upper_TCS example_tcs)
  show ?thesis
    by (subst place_order_buy [OF o k])
       (simp add: upper_TCS example_price Let_def holding_of_def record_order_result
          order_params_def createAccount_def inf_of_sign_def js_sub_def example_env_def)
qed


lemma example_world_inf:
  "example_place (order_params ''TCS'' NInf ''BUY'') (initialWorld 0) =
     \<lparr>sessions = [''demo-session'' \<mapsto>
        \<lparr>balance = PInf,
         holdings =
          [\<lparr>h_symbol = ''TCS'', h_qty = NInf, h_price = NaN\<rparr>,
           \<lparr>h_symbol = ''RELIANCE'', h_qty = Fin 5, h_price = Fin 2800\<rparr>,
           \<lparr>h_symbol = ''INFY'', h_qty = Fin 15, h_price = Fin 1500\<rparr>],
         orders = [\<lparr>o_id = 1 / 2, o_symbol = ''TCS'', o_qty = NInf, o_side = Some ''BUY'',
            o_price = Fin 3450, o_time = 1000\<rparr>]\<rparr>],
      market = initialMarket 0\<rparr>"
  by (simp add: example_place_def example_first_step example_buy_inf)

lemma example_sell_inf:
  "place_order example_env (\<lambda>k. 1 / 2) (order_params ''TCS'' NInf ''SELL'')
     \<lparr>balance = PInf,
      holdings =
        [\<lparr>h_symbol = ''TCS'', h_qty = NInf, h_price = NaN\<rparr>,
         \<lparr>h_symbol = ''RELIANCE'', h_qty = Fin 5, h_price = Fin 2800\<rparr>,
         \<lparr>h_symbol = ''INFY'', h_qty = Fin 15, h_price = Fin 1500\<rparr>],
      orders = os\<rparr> (initialMarket 0) =
     (Inr (Complete (1 / 2) (Fin 3450) (Some ''SELL'', NInf, ''TCS'', Fin 3450)),
      \<lparr>balance = NaN,
       holdings =
        [\<lparr>h_symbol = ''TCS'', h_qty = NaN, h_price = NaN\<rparr>,
         \<lparr>h_symbol = ''RELIANCE'', h_qty = Fin 5, h_price = Fin 2800\<rparr>,
         \<lparr>h_symbol = ''INFY'', h_qty = Fin 15, h_price = Fin 1500\<rparr>],
       orders = os @ [\<lparr>o_id = 1 / 2, o_symbol = ''TCS'', o_qty = NInf, o_side = Some ''SELL'',
          o_price = Fin 3450, o_time = 1000\<rparr>]\<rparr>)"
proof -
  have o: "order_for ''SELL'' ''TCS'' (order_params ''TCS'' NInf ''SELL'')"
    by (simp add: order_for_example)
  have k: "map_of (stocks (initialMarket 0)) (toUpperCase ''TCS'') \<noteq> None"
    by (simp add: upper_TCS example_tcs)
  show ?thesis
    by (subst place_order_sell [OF o k])
       (simp add: upper_TCS example_price Let_def holding_of_def record_order_result
          order_params_def inf_of_sign_def js_sub_def js_seq_def example_env_def)
qed

lemma example_world_nan:
  "executeTool example_env ''place-order'' (order_params ''TCS'' NInf ''SELL'') None
     (example_place (order_params ''TCS'' NInf ''BUY'') (initialWorld 0)) =
   (Inr (Complete (1 / 2) (Fin 3450) (Some ''SELL'', NInf, ''TCS'', Fin 3450)),
    \<lparr>sessions = [''demo-session'' \<mapsto>
        \<lparr>balance = NaN,
         holdings =
          [\<lparr>h_symbol = ''TCS'', h_qty = NaN, h_price = NaN\<rparr>,
           \<lparr>h_symbol = ''RELIANCE'', h_qty = Fin 5, h_price = Fin 2800\<rparr>,
           \<lparr>h_symbol = ''INFY'', h_qty = Fin 15, h_price = Fin 1500\<rparr>],
         orders =
           [\<lparr>o_id = 1 / 2, o_symbol = ''TCS'', o_qty = NInf, o_side = Some ''BUY'',
              o_price = Fin 3450, o_time = 1000\<rparr>,
            \<lparr>o_id = 1 / 2, o_symbol = ''TCS'', o_qty = NInf, o_side = Some ''SELL'',
              o_price = Fin 3450, o_time = 1000\<rparr>]\<rparr>],
      market = initialMarket 0\<rparr>)"
  unfolding example_world_inf
  apply (subst example_step)
    apply simp
   apply simp
  apply (subst example_sell_inf)
  apply (subst example_sell_inf)
  apply simp
  done

text \<open>
  The claim as stated, for every quantity, fails at an infinite one. From the initial state,
  a \<open>BUY\<close> of TCS whose quantity parses to \<open>-Infinity\<close> (a digit string too long
  for a number) is accepted and leaves the TCS holding at \<open>-Infinity\<close>; a \<open>SELL\<close> of
  that same quantity then completes, and the TCS entry stays in the holdings, with quantity
  \<open>NaN\<close>, since \<open>-Infinity - -Infinity\<close> is not \<open>0\<close>.
\<close>

theorem sell_all_counterexample:
  "map_option h_qty (holding_of ''TCS'' (account_of None
      (example_place (order_params ''TCS'' NInf ''BUY'') (initialWorld 0)))) = Some NInf \<and>
   js_seq (p_qty (order_params ''TCS'' NInf ''SELL'')) NInf \<and>
   fst (executeTool example_env ''place-order'' (order_params ''TCS'' NInf ''SELL'') None
      (example_place (order_params ''TCS'' NInf ''BUY'') (initialWorld 0))) =
     Inr (Complete (1 / 2) (Fin 3450) (Some ''SELL'', NInf, ''TCS'', Fin 3450)) \<and>
   map_option h_qty (holding_of ''TCS'' (account_of None
      (example_place (order_params ''TCS'' NInf ''SELL'')
        (example_place (order_params ''TCS'' NInf ''BUY'') (initialWorld 0))))) = Some NaN"
proof -
  have "example_place (order_params ''TCS'' NInf ''SELL'')
        (example_place (order_params ''TCS'' NInf ''BUY'') (initialWorld 0)) =
      snd (executeTool example_env ''place-order'' (order_params ''TCS'' NInf ''SELL'') None
        (example_place (order_params ''TCS'' NInf ''BUY'') (initialWorld 0)))"
    by (simp add: example_place_def)
  then show ?thesis
    unfolding example_world_nan
    by (simp add: example_world_inf example_account_of holding_of_def)
       (simp add: order_params_def js_seq_def)
qed


lemma example_holding:
  "holding_of ''TCS'' (account_of None (initialWorld 0)) =
     Some \<lparr>h_symbol = ''TCS'', h_qty = Fin 10, h_price = Fin 3400\<rparr>"
  by (simp add: example_account createAccount_def holding_of_def)

theorem sell_checks_holdings_witness:
  "order_for ''SELL'' ''tcs'' (order_params ''tcs'' (Fin 20) ''SELL'') \<and>
   order_for ''SELL'' ''tcs'' (order_params ''tcs'' (Fin 10) ''SELL'') \<and>
   map_of (stocks (market (initialWorld 0))) (toUpperCase ''tcs'') \<noteq> None \<and>
   holding_of (toUpperCase ''tcs'') (account_of None (initialWorld 0)) =
     Some \<lparr>h_symbol = ''TCS'', h_qty = Fin 10, h_price = Fin 3400\<rparr> \<and>
   js_lt (Fin 10) (p_qty (order_params ''tcs'' (Fin 20) ''SELL'')) \<and>
   fst (executeTool example_env ''place-order'' (order_params ''tcs'' (Fin 20) ''SELL'') None
      (initialWorld 0)) = Inr (Rejected ''Insufficient holdings'') \<and>
   account_of None (snd (executeTool example_env ''place-order''
      (order_params ''tcs'' (Fin 20) ''SELL'') None (initialWorld 0))) = createAccount \<and>
   p_qty (order_params ''tcs'' (Fin 10) ''SELL'') = Fin 10 \<and>
   holdings (account_of None (snd (executeTool example_env ''place-order''
      (order_params ''tcs'' (Fin 10) ''SELL'') None (initialWorld 0)))) =
     [\<lparr>h_symbol = ''RELIANCE'', h_qty = Fin 5, h_price = Fin 2800\<rparr>,
      \<lparr>h_symbol = ''INFY'', h_qty = Fin 15, h_price = Fin 1500\<rparr>] \<and>
   holding_of ''TCS'' (account_of None (snd (executeTool example_env ''place-order''
      (order_params ''tcs'' (Fin 10) ''SELL'') None (initialWorld 0)))) = None"
proof -
  let ?p20 = "order_params ''tcs'' (Fin 20) ''SELL''" and ?p10 = "order_params ''tcs'' (Fin 10) ''SELL''"
  let ?h = "\<lparr>h_symbol = ''TCS'', h_qty = Fin 10, h_price = Fin 3400\<rparr>"
  have o20: "order_for ''SELL'' ''tcs'' ?p20" and o10: "order_for ''SELL'' ''tcs'' ?p10"
    by (simp_all add: order_for_example)
  have k: "map_of (stocks (market (initialWorld 0))) (toUpperCase ''tcs'') \<noteq> None"
    by (simp add: upper_tcs initialWorld_def example_tcs)
  have h: "holding_of (toUpperCase ''tcs'') (account_of None (initialWorld 0)) = Some ?h"
    by (simp add: upper_tcs example_holding)
  have q20: "js_lt (h_qty ?h) (p_qty ?p20)" and q10: "h_qty ?h = Fin 10" "p_qty ?p10 = Fin 10"
    by (simp_all add: order_params_def)
  from sell_checks_holdings [OF o20 k, of None example_env] h q20
  have a: "fst (executeTool example_env ''place-order'' ?p20 None (initialWorld 0)) =
        Inr (Rejected ''Insufficient holdings'') \<and>
      account_of None (snd (executeTool example_env ''place-order'' ?p20 None (initialWorld 0))) =
        account_of None (initialWorld 0)"
    by blast
  from sell_checks_holdings [OF o10 k, of None example_env] h q10
  have b: "holdings (account_of None (snd (executeTool example_env ''place-order'' ?p10 None
        (initialWorld 0)))) =
        filter (\<lambda>x. h_symbol x \<noteq> toUpperCase ''tcs'') (holdings (account_of None (initialWorld 0))) \<and>
      holding_of (toUpperCase ''tcs'') (account_of None (snd (executeTool example_env
        ''place-order'' ?p10 None (initialWorld 0)))) = None"
    by blast
  have f: "filter (\<lambda>x. h_symbol x \<noteq> ''TCS'') (holdings createAccount) =
     [\<lparr>h_symbol = ''RELIANCE'', h_qty = Fin 5, h_price = Fin 2800\<rparr>,
      \<lparr>h_symbol = ''INFY'', h_qty = Fin 15, h_price = Fin 1500\<rparr>]"
    by (simp add: createAccount_def)
  from a b o20 o10 k h q20 q10 show ?thesis
    by (simp add: upper_tcs example_account f)
qed

section \<open>Buying and the average cost\<close>


lemma order_price_finite: "\<exists>p. order_price m symbol pp = Fin p"
  by (simp add: order_price_def Let_def split: option.splits)










lemma example_place_first:
  "example_place ps (initialWorld 0) =
     \<lparr>sessions = [''demo-session'' \<mapsto>
          snd (place_order example_env (\<lambda>k. 1 / 2) ps createAccount (initialMarket 0))],
      market = initialMarket 0\<rparr>"
  by (simp add: example_place_def example_first_step)

lemma example_place_next:
  "example_place ps \<lparr>sessions = [''demo-session'' \<mapsto> a], market = initialMarket 0\<rparr> =
     \<lparr>sessions = [''demo-session'' \<mapsto>
          snd (place_order example_env (\<lambda>k. 1 / 2) ps a (initialMarket 0))],
      market = initialMarket 0\<rparr>"
  unfolding example_place_def by (subst example_step) simp_all













section \<open>Unknown tools and methods\<close>

lemma executeTool_unknown:
  assumes "toolName \<notin> set known_tools"
  shows "fst (executeTool e toolName ps sid w) = Inl (Error (''Unknown tool: '' @ toolName))"
  using assms
  by (simp add: executeTool_def known_tools_def Let_def case_prod_beta)

text \<open>
  Claim C8. For every tool name outside the nine names the dispatcher has a case for,
  \<open>executeTool\<close> throws an error whose message is \<open>Unknown tool: \<close> followed by the
  name. A JSON-RPC \<open>tools/call\<close> request (any request but a CORS preflight, with
  \<open>jsonrpc\<close> equal to \<open>2.0\<close>) that names such a tool is answered by the JSON-RPC error
  with code -32603 and that message; a JSON-RPC request whose method is none of the eight
  methods handled, a missing method included, is answered by the JSON-RPC error with code
  -32601 and message \<open>Method not found\<close>, the module state being left as it was.
\<close>

theorem unknown_tool_and_method:
  "(toolName \<notin> set known_tools \<longrightarrow>
      fst (executeTool e toolName ps sid w) = Inl (Error (''Unknown tool: '' @ toolName))) \<and>
   (http_method req \<noteq> ''OPTIONS'' \<and> req_body req = Some b \<and> jsonrpc b = Some ''2.0'' \<and>
    rpc_method b = Some ''tools/call'' \<and> rpc_params b = Some p \<and>
    tool_name (rp_name p) \<notin> set known_tools \<longrightarrow>
      fst (handler e req w) =
        JsonRpcError (rpc_id b) (- 32603) (''Unknown tool: '' @ tool_name (rp_name p))) \<and>
   (http_method req \<noteq> ''OPTIONS'' \<and> req_body req = Some b \<and> jsonrpc b = Some ''2.0'' \<and>
    list_all (\<lambda>m. rpc_method b \<noteq> Some m) known_methods \<longrightarrow>
      handler e req w = (JsonRpcError (rpc_id b) (- 32601) ''Method not found'', w))"
proof (intro conjI impI)
  assume "toolName \<notin> set known_tools"
  then show "fst (executeTool e toolName ps sid w) = Inl (Error (''Unknown tool: '' @ toolName))"
    by (rule executeTool_unknown)
next
  assume a: "http_method req \<noteq> ''OPTIONS'' \<and> req_body req = Some b \<and> jsonrpc b = Some ''2.0'' \<and>
    rpc_method b = Some ''tools/call'' \<and> rpc_params b = Some p \<and>
    tool_name (rp_name p) \<notin> set known_tools"
  let ?args = "case rp_arguments p of None \<Rightarrow> no_params | Some a \<Rightarrow> a"
  from a have "fst (executeTool e (tool_name (rp_name p)) ?args (Some ''demo-session'') w) =
      Inl (Error (''Unknown tool: '' @ tool_name (rp_name p)))"
    by (simp add: executeTool_unknown)
  then obtain w' where "executeTool e (tool_name (rp_name p)) ?args (Some ''demo-session'') w =
      (Inl (Error (''Unknown tool: '' @ tool_name (rp_name p))), w')"
    by (metis prod.collapse)
  with a show "fst (handler e req w) =
        JsonRpcError (rpc_id b) (- 32603) (''Unknown tool: '' @ tool_name (rp_name p))"
    by (simp add: handler_def Let_def error_message_def)
next
  assume "http_method req \<noteq> ''OPTIONS'' \<and> req_body req = Some b \<and> jsonrpc b = Some ''2.0'' \<and>
    list_all (\<lambda>m. rpc_method b \<noteq> Some m) known_methods"
  then show "handler e req w = (JsonRpcError (rpc_id b) (- 32601) ''Method not found'', w)"
    by (simp add: handler_def Let_def known_methods_def)
qed

theorem unknown_tool_and_method_witness:
  "''get-portfolio'' \<notin> set known_tools \<and>
   fst (executeTool example_env ''get-portfolio'' no_params None (initialWorld 0)) =
     Inl (Error ''Unknown tool: get-portfolio'') \<and>
   http_method (example_request ''tools/call'' ''get-portfolio'') \<noteq> ''OPTIONS'' \<and>
   fst (handler example_env (example_request ''tools/call'' ''get-portfolio'') (initialWorld 0)) =
     JsonRpcError (Some 1) (- 32603) ''Unknown tool: get-portfolio'' \<and>
   list_all (\<lambda>m. Some ''tools/run'' \<noteq> Some m) known_methods \<and>
   handler example_env (example_request ''tools/run'' ''init'') (initialWorld 0) =
     (JsonRpcError (Some 1) (- 32601) ''Method not found'', initialWorld 0)"
proof -
  let ?b = "\<lambda>m t. \<lparr>jsonrpc = Some ''2.0'', rpc_method = Some m,
         rpc_params = Some \<lparr>rp_name = Some t, rp_arguments = None, rp_uri = None,
                          rp_args = no_params\<rparr>,
         rpc_id = Some (1::int), b_sessionId = None, b_tool = None\<rparr>"
  let ?p = "\<lambda>t. \<lparr>rp_name = Some t, rp_arguments = None, rp_uri = None, rp_args = no_params\<rparr>"
  have u: "''get-portfolio'' \<notin> set known_tools" by (simp add: known_tools_def)
  have m: "list_all (\<lambda>m. Some ''tools/run'' \<noteq> Some m) known_methods"
    by (simp add: known_methods_def)
  have post: "http_method (example_request mm t) \<noteq> ''OPTIONS''" for mm t
    by (simp add: example_request_def)
  have body: "req_body (example_request mm t) = Some (?b mm t)" for mm t
    by (simp add: example_request_def)
  from unknown_tool_and_method [of "''get-portfolio''" example_env no_params None "initialWorld 0"] u
  have a: "fst (executeTool example_env ''get-portfolio'' no_params None (initialWorld 0)) =
     Inl (Error (''Unknown tool: '' @ ''get-portfolio''))"
    by blast
  from unknown_tool_and_method [where req = "example_request ''tools/call'' ''get-portfolio''"
      and b = "?b ''tools/call'' ''get-portfolio''" and p = "?p ''get-portfolio''"
      and e = example_env and w = "initialWorld 0"] u post body
  have b: "fst (handler example_env (example_request ''tools/call'' ''get-portfolio'')
      (initialWorld 0)) =
     JsonRpcError (Some 1) (- 32603) (''Unknown tool: '' @ ''get-portfolio'')"
    by (simp add: tool_name_def)
  from unknown_tool_and_method [where req = "example_request ''tools/run'' ''init''"
      and b = "?b ''tools/run'' ''init''" and e = example_env and w = "initialWorld 0"] m post body
  have c: "handler example_env (example_request ''tools/run'' ''init'') (initialWorld 0) =
     (JsonRpcError (Some 1) (- 32601) ''Method not found'', initialWorld 0)"
    by simp
  from u m post a b c show ?thesis by simp
qed

section \<open>Price history\<close>

lemma history_loop_unfold:
  "history_loop rnd dates days i c hist =
     (if real i < days
      then history_loop rnd dates days (Suc i) (prev_close rnd i c) (hist @ [history_entry rnd dates i c])
      else hist)"
  by (subst history_loop.simps) (simp add: Let_def prev_close_def history_entry_def)

lemma history_loop_from:
  "history_loop rnd dates days i c hist = hist @ history_from rnd dates (nat \<lceil>days\<rceil> - i) i c"
proof (induction "nat \<lceil>days\<rceil> - i" arbitrary: i c hist)
  case 0
  then have "\<not> real i < days" by linarith
  with 0 show ?case by (subst history_loop_unfold) simp
next
  case (Suc k)
  then have lt: "real i < days" by linarith
  from Suc.hyps(2) have k: "k = nat \<lceil>days\<rceil> - Suc i" by simp
  from Suc.hyps(2) have "nat \<lceil>days\<rceil> - i = Suc (nat \<lceil>days\<rceil> - Suc i)" by simp
  with Suc.hyps(1) [OF k] lt show ?case
    by (subst history_loop_unfold) simp
qed

lemma history_from_length: "length (history_from rnd dates k i c) = k"
  by (induction k arbitrary: i c) auto

lemma history_from_dates:
  "map d_date (history_from rnd dates k i c) = map dates [i..<i + k]"
proof (induction k arbitrary: i c)
  case 0
  then show ?case by simp
next
  case (Suc k)
  have "[i..<i + Suc k] = i # [Suc i..<Suc i + k]"
    by (simp add: upt_conv_Cons)
  with Suc [of "Suc i"] show ?case by (simp add: history_entry_def)
qed


lemma history_from_chain:
  "successively (\<lambda>a b. d_close b = d_open a) (history_from rnd dates k i c)"
proof (induction k arbitrary: i c)
  case 0
  then show ?case by simp
next
  case (Suc k)
  show ?case
  proof (cases k)
    case 0
    then show ?thesis by simp
  next
    case (Suc j)
    with Suc.IH [of "Suc i" "prev_close rnd i c"] show ?thesis
      by (simp add: history_entry_def)
  qed
qed









lemma executeTool_get_history:
  "executeTool e ''get-history'' ps sid w =
     (get_history e (draws_after e w) ps (market_now e w),
      \<lparr>sessions = snd (getSession sid (sessions w)), market = market_now e w\<rparr>)"
proof -
  have d: "(\<lambda>k. random e (snd (updateMarket (now e) (random e) (market w)) + k)) = draws_after e w"
    by (simp add: draws_after_def fun_eq_iff)
  show ?thesis
    unfolding executeTool_def market_now_def
    by (simp add: Let_def case_prod_beta d)
qed

lemma get_history_known:
  assumes "p_symbol ps = Some s" and "map_of (stocks m) (toUpperCase s) = Some st"
  shows "get_history e rnd ps m =
     Inr (HistoryResult (toUpperCase s)
           (rev (history_from rnd (date_of e) (history_days (p_days ps)) 0 (s_price st))))"
  using assms
  by (simp add: get_history_def Let_def history_loop_from history_days_def split: option.splits)

lemma get_history_cases:
  assumes "history_of (get_history e rnd ps m) = Some hist"
  shows "\<exists>s st. p_symbol ps = Some s \<and> map_of (stocks m) (toUpperCase s) = Some st \<and>
           hist = rev (history_from rnd (date_of e) (history_days (p_days ps)) 0 (s_price st))"
proof (cases "p_symbol ps")
  case None
  with assms show ?thesis by (simp add: get_history_def history_of_def cannot_read_def)
next
  case (Some s)
  show ?thesis
  proof (cases "map_of (stocks m) (toUpperCase s)")
    case None
    with Some assms show ?thesis
      by (simp add: get_history_def history_of_def Let_def)
  next
    case st: (Some st)
    with Some assms show ?thesis by (simp add: get_history_known history_of_def)
  qed
qed

text \<open>
  Claim C4. In the sequence a \<open>get-history\<close> call returns (oldest day first), the open
  of every entry but the first equals the close of the entry before it: \<open>open[k]\<close> is
  \<open>close[k-1]\<close> for every index \<open>k\<close> from 1 on. The loop hands the unrounded previous
  close from one iteration to the next and both fields are that one value rounded to 2
  decimals, so the equality is exact on the returned values.
\<close>

theorem history_open_is_previous_close:
  assumes "history_of (fst (executeTool e ''get-history'' ps sid w)) = Some hist"
  shows "\<forall>k. 1 \<le> k \<and> k < length hist \<longrightarrow> d_open (hist ! k) = d_close (hist ! (k - 1))"
proof (intro allI impI)
  fix k assume k: "1 \<le> k \<and> k < length hist"
  from assms have "history_of (get_history e (draws_after e w) ps (market_now e w)) = Some hist"
    by (simp add: executeTool_get_history)
  from get_history_cases [OF this] obtain st :: stock where
    hist: "hist = rev (history_from (draws_after e w) (date_of e) (history_days (p_days ps)) 0 (s_price st))"
    by blast
  have "successively (\<lambda>a b. d_close a = d_open b) hist"
    unfolding hist by (simp add: history_from_chain)
  moreover from k have "Suc (k - 1) < length hist" by simp
  ultimately have "d_close (hist ! (k - 1)) = d_open (hist ! Suc (k - 1))"
    by (rule successively_nth)
  with k show "d_open (hist ! k) = d_close (hist ! (k - 1))" by simp
qed

lemma example_history_values:
  "map ohlc_values (rev (history_from (\<lambda>k. 1 / 4) dates 3 0 3450)) =
     [(3502.01, 3510.72, 3475.87, 3484.59),
      (3484.59, 3493.25, 3458.58, 3467.25),
      (3467.25, 3475.88, 3441.38, 3450)]"
  by (simp add: numeral_3_eq_3 history_entry_def prev_close_def toFixed2_def ohlc_values_def)







lemma history_dates_oldest_first:
  "map d_date (rev (history_from rnd dates k 0 c)) =
     rev (map dates [0..<length (rev (history_from rnd dates k 0 c))])"
  by (simp add: rev_map [symmetric] history_from_dates history_from_length)

text \<open>The date strings of a history need not be distinct: on the New York host of
  \<open>spring_dates\<close>, two of four entries carry 13 March.\<close>

lemma history_dates_can_repeat:
  "map d_date (rev (history_from rnd spring_dates 4 0 c)) =
     [''2022-03-12'', ''2022-03-13'', ''2022-03-13'', ''2022-03-14'']"
proof -
  have "[0..<4] = [0, 1, 2, 3 :: nat]"
    by (simp add: upt_rec)
  then show ?thesis
    by (simp add: history_dates_oldest_first history_from_length spring_dates_def)
qed





lemma history_days_values: "history_days (Some 1) = 1" "history_days (Some 3) = 3"
  by (simp_all add: history_days_def)






lemma example_history_run:
  "fst (executeTool (env_at 1000 (1 / 4)) ''get-history'' (history_params ''TCS'' (Some 3)) None
      (initialWorld 0)) = Inr (HistoryResult ''TCS'' example_history)"
proof -
  have m: "market_now (env_at 1000 (1 / 4)) (initialWorld 0) = initialMarket 0"
    by (simp add: market_now_def env_at_def initialWorld_def updateMarket_def initialMarket_def)
  have d: "draws_after (env_at 1000 (1 / 4)) (initialWorld 0) = random (env_at 1000 (1 / 4))"
    by (simp add: draws_after_def env_at_def fun_eq_iff)
  have p: "p_symbol (history_params ''TCS'' (Some 3)) = Some ''TCS''"
    by (simp add: history_params_def)
  have k: "map_of (stocks (initialMarket 0)) (toUpperCase ''TCS'') =
      Some \<lparr>s_price = 3450, s_trend = UP\<rparr>"
    by (simp add: upper_TCS example_tcs)
  show ?thesis
    by (simp add: executeTool_get_history m d get_history_known [OF p k] upper_TCS example_history_def)
       (simp add: history_params_def history_days_values env_at_def)
qed

lemma example_history_ohlc:
  "map ohlc_values example_history =
     [(3502.01, 3510.72, 3475.87, 3484.59),
      (3484.59, 3493.25, 3458.58, 3467.25),
      (3467.25, 3475.88, 3441.38, 3450)]"
  by (simp add: example_history_def env_at_def example_history_values)

theorem history_open_is_previous_close_witness:
  "history_of (fst (executeTool (env_at 1000 (1 / 4)) ''get-history''
      (history_params ''TCS'' (Some 3)) None (initialWorld 0))) = Some example_history \<and>
   map ohlc_values example_history =
     [(3502.01, 3510.72, 3475.87, 3484.59),
      (3484.59, 3493.25, 3458.58, 3467.25),
      (3467.25, 3475.88, 3441.38, 3450)] \<and>
   (1::nat) \<le> 2 \<and> 2 < length example_history \<and>
   d_open (example_history ! 1) = d_close (example_history ! 0) \<and>
   d_open (example_history ! 2) = d_close (example_history ! 1)"
proof -
  have h: "history_of (fst (executeTool (env_at 1000 (1 / 4)) ''get-history''
      (history_params ''TCS'' (Some 3)) None (initialWorld 0))) = Some example_history"
    by (simp add: example_history_run history_of_def)
  have len: "length example_history = 3"
    by (simp add: example_history_def history_from_length)
  from history_open_is_previous_close [OF h] len
  have "d_open (example_history ! 1) = d_close (example_history ! (1 - 1))"
    and "d_open (example_history ! 2) = d_close (example_history ! (2 - 1))"
    by simp_all
  with h len show ?thesis by (simp add: example_history_ohlc)
qed


end
